theory Spec2Isabelle
  imports Complex_Main
begin

section \<open>Tensors, errors and the library operations the embedding layers call\<close>

text \<open>
  The module under verification is \<^verbatim>\<open>pytorch_widedeep/models/embeddings_layers.py\<close>.

  Conventions of the embedding:
  \<^item> Tensor entries are real numbers: the exact arithmetic that the floating-point
    numbers of the tensor library approximate. Every theorem below is about which entries
    are looked up, multiplied, added and overwritten, and about shapes.
  \<^item> A tensor of shape \<open>(N, F)\<close> is the list of its \<open>N\<close> rows, each a list of \<open>F\<close>
    entries; a tensor of shape \<open>(N, C, D)\<close> is a list of \<open>N\<close> lists of \<open>C\<close> vectors of
    length \<open>D\<close>. The width of an empty batch (\<open>N = 0\<close>) is not represented: checks that
    the library makes on a width are made on every row, so they pass on an empty batch.
  \<^item> Every \<^verbatim>\<open>raise\<close>, failed \<^verbatim>\<open>assert\<close>, missing dictionary key and missing attribute
    is a value \<open>Inl e\<close> of the result type.
  \<^item> The random draws that initialise parameters and that drive dropout in training mode
    are arguments of the model: a function from the position of an entry to the value drawn.
  \<^item> The flag \<^verbatim>\<open>self.training\<close>, which \<^verbatim>\<open>train()\<close> and \<^verbatim>\<open>eval()\<close> set for a whole
    module tree, is the argument \<open>training\<close> of every forward function.
\<close>

datatype error =
  ValueError | AttributeError | AssertionError | KeyError | IndexError | RuntimeError
  | TypeError | NotImplementedError

type_synonym 'a result = "error + 'a"

type_synonym tensor1 = "real list"
type_synonym tensor2 = "real list list"
type_synonym tensor3 = "real list list list"

definition bindE :: "'a result \<Rightarrow> ('a \<Rightarrow> 'b result) \<Rightarrow> 'b result" where
  "bindE m f = (case m of Inl e \<Rightarrow> Inl e | Inr v \<Rightarrow> f v)"

text \<open>A list comprehension whose body can raise: the first failure ends it.\<close>

fun mapE :: "('a \<Rightarrow> 'b result) \<Rightarrow> 'a list \<Rightarrow> 'b list result" where
  "mapE f [] = Inr []"
| "mapE f (x # xs) = bindE (f x) (\<lambda>y. bindE (mapE f xs) (\<lambda>ys. Inr (y # ys)))"

text \<open>\<^verbatim>\<open>d[k]\<close> on a dictionary.\<close>

definition getitem :: "('k \<rightharpoonup> 'v) \<Rightarrow> 'k \<Rightarrow> 'v result" where
  "getitem d k = (case d k of None \<Rightarrow> Inl KeyError | Some v \<Rightarrow> Inr v)"

text \<open>
  \<^verbatim>\<open>self.name\<close> on a module: the attributes that \<^verbatim>\<open>__init__\<close> assigned are an association
  list; reading a name that was never assigned raises \<^verbatim>\<open>AttributeError\<close>.
\<close>

definition getattr :: "(string \<times> 'v) list \<Rightarrow> string \<Rightarrow> 'v result" where
  "getattr attrs name = (case map_of attrs name of None \<Rightarrow> Inl AttributeError | Some v \<Rightarrow> Inr v)"

text \<open>An index \<open>i\<close> into a dimension of size \<open>n\<close>; negative indices count from the end.\<close>

definition index_dim :: "nat \<Rightarrow> int \<Rightarrow> nat result" where
  "index_dim n i =
     (if 0 \<le> i \<and> i < int n then Inr (nat i)
      else if - int n \<le> i \<and> i < 0 then Inr (nat (i + int n))
      else Inl IndexError)"

text \<open>\<^verbatim>\<open>X[:, i]\<close> for an integer \<open>i\<close>, and \<^verbatim>\<open>X[:, idx]\<close> for a list of integers.\<close>

definition select_col :: "tensor2 \<Rightarrow> int \<Rightarrow> tensor1 result" where
  "select_col X i = mapE (\<lambda>row. bindE (index_dim (length row) i) (\<lambda>j. Inr (row ! j))) X"

definition select_cols :: "tensor2 \<Rightarrow> int list \<Rightarrow> tensor2 result" where
  "select_cols X idx =
     mapE (\<lambda>row. mapE (\<lambda>i. bindE (index_dim (length row) i) (\<lambda>j. Inr (row ! j))) idx) X"

text \<open>\<^verbatim>\<open>.long()\<close>: conversion to an integer truncates towards zero.\<close>

definition long :: "real \<Rightarrow> int" where
  "long x = (if 0 \<le> x then \<lfloor>x\<rfloor> else \<lceil>x\<rceil>)"

text \<open>Python's \<^verbatim>\<open>int(x)\<close> on a float truncates towards zero as well.\<close>

definition py_int :: "real \<Rightarrow> int" where
  "py_int x = (if 0 \<le> x then \<lfloor>x\<rfloor> else \<lceil>x\<rceil>)"

text \<open>A parameter of shape \<open>(n, d)\<close> (or \<open>(d)\<close>) filled from its initial draws.\<close>

definition tabulate1 :: "nat \<Rightarrow> (nat \<Rightarrow> real) \<Rightarrow> tensor1" where
  "tabulate1 d f = map f [0..<d]"

definition tabulate2 :: "nat \<Rightarrow> nat \<Rightarrow> (nat \<Rightarrow> nat \<Rightarrow> real) \<Rightarrow> tensor2" where
  "tabulate2 n d f = map (\<lambda>i. tabulate1 d (f i)) [0..<n]"

subsection \<open>\<^verbatim>\<open>nn.Embedding(n, d, padding_idx=0)\<close>\<close>

text \<open>
  Library behaviour: the weight has shape \<open>(n, d)\<close>, is drawn at random (\<open>w0\<close>) and then its
  row \<open>padding_idx = 0\<close> is filled with zeros, which fails with an index error on a table
  without rows. A lookup returns the row of the code; a code outside \<open>[0, n)\<close> is an index
  error (negative codes do not wrap around).
\<close>

definition Embedding_init :: "nat \<Rightarrow> nat \<Rightarrow> (nat \<Rightarrow> nat \<Rightarrow> real) \<Rightarrow> tensor2 result" where
  "Embedding_init n d w0 =
     (if n = 0 then Inl IndexError
      else Inr (tabulate2 n d (\<lambda>i j. if i = 0 then 0 else w0 i j)))"

definition Embedding_forward :: "tensor2 \<Rightarrow> int \<Rightarrow> tensor1 result" where
  "Embedding_forward W c =
     (if 0 \<le> c \<and> c < int (length W) then Inr (W ! nat c) else Inl IndexError)"

subsection \<open>\<^verbatim>\<open>nn.Dropout(p)\<close> and \<^verbatim>\<open>F.dropout(x, p, training)\<close>\<close>

text \<open>
  Library behaviour: a probability outside \<open>[0, 1]\<close> is a \<^verbatim>\<open>ValueError\<close>, at construction of
  \<^verbatim>\<open>nn.Dropout\<close> and in every call of \<^verbatim>\<open>F.dropout\<close>. In evaluation mode the input is
  returned as it is. In training mode every entry is kept with probability \<open>1 - p\<close> and
  scaled by \<open>1 / (1 - p)\<close>, or zeroed; \<open>keep\<close> is the draw, by the position of the entry.
\<close>

definition Dropout_init :: "real \<Rightarrow> real result" where
  "Dropout_init p = (if p < 0 \<or> p > 1 then Inl ValueError else Inr p)"

definition dropout_elem :: "real \<Rightarrow> bool \<Rightarrow> real \<Rightarrow> real" where
  "dropout_elem p k v = (if p = 1 then 0 else if k then v / (1 - p) else 0)"

definition dropout1 :: "real \<Rightarrow> (nat list \<Rightarrow> bool) \<Rightarrow> tensor1 \<Rightarrow> tensor1" where
  "dropout1 p keep x = map (\<lambda>(j, v). dropout_elem p (keep [j]) v) (enumerate 0 x)"

definition dropout2 :: "real \<Rightarrow> (nat list \<Rightarrow> bool) \<Rightarrow> tensor2 \<Rightarrow> tensor2" where
  "dropout2 p keep x =
     map (\<lambda>(i, row). dropout1 p (\<lambda>js. keep (i # js)) row) (enumerate 0 x)"

definition dropout3 :: "real \<Rightarrow> (nat list \<Rightarrow> bool) \<Rightarrow> tensor3 \<Rightarrow> tensor3" where
  "dropout3 p keep x =
     map (\<lambda>(i, m). dropout2 p (\<lambda>js. keep (i # js)) m) (enumerate 0 x)"

definition F_dropout2 :: "real \<Rightarrow> bool \<Rightarrow> (nat list \<Rightarrow> bool) \<Rightarrow> tensor2 \<Rightarrow> tensor2 result" where
  "F_dropout2 p training keep x =
     (if p < 0 \<or> p > 1 then Inl ValueError
      else Inr (if training then dropout2 p keep x else x))"

definition F_dropout3 :: "real \<Rightarrow> bool \<Rightarrow> (nat list \<Rightarrow> bool) \<Rightarrow> tensor3 \<Rightarrow> tensor3 result" where
  "F_dropout3 p training keep x =
     (if p < 0 \<or> p > 1 then Inl ValueError
      else Inr (if training then dropout3 p keep x else x))"

section \<open>\<^verbatim>\<open>FullEmbeddingDropout\<close>\<close>

text \<open>
  \<^verbatim>\<open>__init__(self, p)\<close> rejects \<open>p\<close> outside \<open>[0, 1]\<close> and assigns the one attribute
  \<^verbatim>\<open>self.p\<close>. The instance is the association list of the attributes assigned.
\<close>

type_synonym FullEmbeddingDropout = "(string \<times> real) list"

definition FullEmbeddingDropout_init :: "real \<Rightarrow> FullEmbeddingDropout result" where
  "FullEmbeddingDropout_init p =
     (if p < 0 \<or> p > 1 then Inl ValueError else Inr [(''p'', p)])"

text \<open>
  \<^verbatim>\<open>forward\<close>: in training mode the mask has shape \<open>(X.size(1), 1)\<close>, is drawn from
  \<^verbatim>\<open>bernoulli_(1 - self.dropout)\<close> (\<open>m c\<close> is entry \<open>c\<close> of the draw, 0 or 1; a probability
  outside \<open>[0, 1]\<close> is a runtime error), is expanded to the shape of \<open>X\<close>, divided by
  \<^verbatim>\<open>1 - self.dropout\<close> and multiplied with \<open>X\<close>. The attribute read is \<^verbatim>\<open>self.dropout\<close>.
  For \<open>X\<close> of shape \<open>(N, C, D)\<close> the mask \<open>(C, 1)\<close> expands along the batch. For \<open>X\<close> of
  shape \<open>(N, D)\<close> the mask \<open>(D, 1)\<close> expands to \<open>(N, D)\<close> only when \<open>D = N\<close> or \<open>D = 1\<close>.
  (Where \<^verbatim>\<open>self.dropout\<close> is 1 the floating-point quotient is not a number; the quotient of
  the reals is used here.)
\<close>

definition scaled_mask :: "real \<Rightarrow> (nat \<Rightarrow> real) \<Rightarrow> nat \<Rightarrow> real" where
  "scaled_mask d m c = m c / (1 - d)"

definition FullEmbeddingDropout_forward3 ::
  "FullEmbeddingDropout \<Rightarrow> bool \<Rightarrow> (nat \<Rightarrow> real) \<Rightarrow> tensor3 \<Rightarrow> tensor3 result" where
  "FullEmbeddingDropout_forward3 self training m X =
     (if training then
        bindE (getattr self ''dropout'') (\<lambda>d.
          if 1 - d < 0 \<or> 1 - d > 1 then Inl RuntimeError
          else Inr (map (\<lambda>x. map (\<lambda>(c, v). map (\<lambda>e. scaled_mask d m c * e) v)
                                 (enumerate 0 x)) X))
      else Inr X)"

definition FullEmbeddingDropout_forward2 ::
  "FullEmbeddingDropout \<Rightarrow> bool \<Rightarrow> (nat \<Rightarrow> real) \<Rightarrow> tensor2 \<Rightarrow> tensor2 result" where
  "FullEmbeddingDropout_forward2 self training m X =
     (if training then
        bindE (getattr self ''dropout'') (\<lambda>d.
          if 1 - d < 0 \<or> 1 - d > 1 then Inl RuntimeError
          else mapE (\<lambda>(n, row).
                 if length row = length X then Inr (map (\<lambda>e. scaled_mask d m n * e) row)
                 else if length row = 1 then Inr (map (\<lambda>e. scaled_mask d m 0 * e) row)
                 else Inl RuntimeError) (enumerate 0 X))
      else Inr X)"

section \<open>\<^verbatim>\<open>ContEmbeddings\<close>\<close>

text \<open>
  \<^verbatim>\<open>get_activation_fn\<close> is imported from a module that is not part of these sources; it is
  an argument of the constructor. It maps the name of an activation to a module, or
  fails; the module is called as \<^verbatim>\<open>self.act_fn(x)\<close> on a tensor of shape \<open>(N, C, D)\<close> and
  is any function on such tensors that can fail. Two kinds of module of the library:
  \<^item> an activation that acts on every entry by itself (\<^verbatim>\<open>tanh\<close>, \<^verbatim>\<open>relu\<close>,
    \<^verbatim>\<open>leaky_relu\<close>, \<^verbatim>\<open>gelu\<close>) is \<open>entrywise f\<close>;
  \<^item> a gated unit (\<^verbatim>\<open>geglu\<close>, \<^verbatim>\<open>reglu\<close>) computes
    \<^verbatim>\<open>x, gates = x.chunk(2, dim=-1)\<close> and returns \<^verbatim>\<open>x * gate(gates)\<close>: the last dimension
    is cut into a first chunk of \<open>\<lceil>D / 2\<rceil>\<close> entries and the rest (a single chunk cannot be
    unpacked into two names), and the product broadcasts a second chunk of one entry.
  \<open>w0\<close> and \<open>b0\<close> are the draws of \<^verbatim>\<open>_reset_parameters\<close>.
\<close>

definition entrywise :: "(real \<Rightarrow> real) \<Rightarrow> tensor3 \<Rightarrow> tensor3 result" where
  "entrywise f x = Inr (map (map (map f)) x)"

definition relu :: "real \<Rightarrow> real" where
  "relu v = max v 0"

definition gated_unit :: "(real \<Rightarrow> real) \<Rightarrow> tensor3 \<Rightarrow> tensor3 result" where
  "gated_unit gate x =
     mapE (mapE (\<lambda>v.
       let h = (length v + 1) div 2
       in if length v \<le> h then Inl ValueError
          else if length v - h = h
            then Inr (map2 (\<lambda>a g. a * gate g) (take h v) (drop h v))
          else if length v - h = 1
            then Inr (map (\<lambda>a. a * gate (v ! h)) (take h v))
          else Inl RuntimeError)) x"

record ContEmbeddings =
  ce_n_cont_cols :: nat
  ce_embed_dim :: nat
  ce_embed_dropout :: real
  ce_use_bias :: bool
  ce_activation :: "string option"
  ce_weight :: tensor2
  ce_bias :: "tensor2 option"
  ce_act_fn :: "(tensor3 \<Rightarrow> tensor3 result) option"

definition ContEmbeddings_init ::
  "(string \<Rightarrow> (tensor3 \<Rightarrow> tensor3 result) result) \<Rightarrow> nat \<Rightarrow> nat \<Rightarrow> real \<Rightarrow> bool
   \<Rightarrow> string option \<Rightarrow> (nat \<Rightarrow> nat \<Rightarrow> real) \<Rightarrow> (nat \<Rightarrow> nat \<Rightarrow> real)
   \<Rightarrow> ContEmbeddings result" where
  "ContEmbeddings_init get_activation_fn n_cont_cols embed_dim embed_dropout use_bias
       activation w0 b0 =
     bindE (case activation of
              None \<Rightarrow> Inr None
            | Some a \<Rightarrow> if a = [] then Inr None
                        else bindE (get_activation_fn a) (\<lambda>f. Inr (Some f)))
       (\<lambda>act. Inr \<lparr> ce_n_cont_cols = n_cont_cols, ce_embed_dim = embed_dim,
                    ce_embed_dropout = embed_dropout, ce_use_bias = use_bias,
                    ce_activation = activation,
                    ce_weight = tabulate2 n_cont_cols embed_dim w0,
                    ce_bias = (if use_bias then Some (tabulate2 n_cont_cols embed_dim b0)
                               else None),
                    ce_act_fn = act \<rparr>)"

text \<open>
  Broadcasting of two sizes of one dimension: equal, or one of them is 1; \<open>bget\<close> reads
  position \<open>i\<close> of a dimension that may have been broadcast from size 1.
\<close>

definition bcast_size :: "nat \<Rightarrow> nat \<Rightarrow> nat result" where
  "bcast_size a b =
     (if a = b then Inr a else if a = 1 then Inr b else if b = 1 then Inr a
      else Inl RuntimeError)"

definition bget :: "'a list \<Rightarrow> nat \<Rightarrow> 'a" where
  "bget xs i = (if length xs = 1 then xs ! 0 else xs ! i)"

text \<open>\<^verbatim>\<open>self.weight.unsqueeze(0) * X.unsqueeze(2)\<close>: shapes \<open>(1, C, D)\<close> and \<open>(N, C', 1)\<close>.\<close>

definition ce_scale :: "tensor2 \<Rightarrow> tensor2 \<Rightarrow> tensor3 result" where
  "ce_scale W X =
     mapE (\<lambda>row. bindE (bcast_size (length W) (length row))
                   (\<lambda>S. Inr (map (\<lambda>c. map (\<lambda>w. w * bget row c) (bget W c)) [0..<S]))) X"

text \<open>\<^verbatim>\<open>x + self.bias.unsqueeze(0)\<close>: shapes \<open>(N, S, D)\<close> and \<open>(1, C, D)\<close>.\<close>

definition add_bias :: "tensor2 \<Rightarrow> tensor3 \<Rightarrow> tensor3 result" where
  "add_bias B x =
     mapE (\<lambda>m. bindE (bcast_size (length m) (length B))
                 (\<lambda>S. Inr (map (\<lambda>c. map2 (+) (bget m c) (bget B c)) [0..<S]))) x"

definition ContEmbeddings_forward ::
  "ContEmbeddings \<Rightarrow> bool \<Rightarrow> (nat list \<Rightarrow> bool) \<Rightarrow> tensor2 \<Rightarrow> tensor3 result" where
  "ContEmbeddings_forward self training keep X =
     bindE (ce_scale (ce_weight self) X) (\<lambda>x.
     bindE (case ce_bias self of None \<Rightarrow> Inr x | Some B \<Rightarrow> add_bias B x) (\<lambda>x.
     bindE (case ce_act_fn self of None \<Rightarrow> Inr x | Some f \<Rightarrow> f x) (\<lambda>x.
       F_dropout3 (ce_embed_dropout self) training keep x)))"

section \<open>\<^verbatim>\<open>SharedEmbeddings\<close>\<close>

datatype DropoutLayers = NnDropout real | FullDropout FullEmbeddingDropout

text \<open>
  \<open>se_embed\<close> is the weight of \<^verbatim>\<open>self.embed\<close> after \<^verbatim>\<open>clamp_(-2, 2)\<close>; \<open>se_shared_embed\<close> is
  the single row of the \<open>(1, col_embed_dim)\<close> parameter. \<open>w0\<close> and \<open>s0\<close> are the draws of
  the table and of \<^verbatim>\<open>uniform_(-1, 1)\<close>. A negative size given to \<^verbatim>\<open>torch.empty\<close> is a
  runtime error.
\<close>

record SharedEmbeddings =
  se_add_shared_embed :: bool
  se_embed :: tensor2
  se_shared_embed :: tensor1
  se_dropout :: DropoutLayers

definition clamp :: "real \<Rightarrow> real \<Rightarrow> real \<Rightarrow> real" where
  "clamp lo hi x = min (max x lo) hi"

definition DropoutLayers_init :: "bool \<Rightarrow> real \<Rightarrow> DropoutLayers result" where
  "DropoutLayers_init full_embed_dropout embed_dropout =
     (if full_embed_dropout
      then bindE (FullEmbeddingDropout_init embed_dropout) (\<lambda>d. Inr (FullDropout d))
      else bindE (Dropout_init embed_dropout) (\<lambda>p. Inr (NnDropout p)))"

definition SharedEmbeddings_init ::
  "nat \<Rightarrow> nat \<Rightarrow> real \<Rightarrow> bool \<Rightarrow> bool \<Rightarrow> real \<Rightarrow> (nat \<Rightarrow> nat \<Rightarrow> real) \<Rightarrow> (nat \<Rightarrow> real)
   \<Rightarrow> SharedEmbeddings result" where
  "SharedEmbeddings_init n_embed embed_dim embed_dropout full_embed_dropout add_shared_embed
       frac_shared_embed w0 s0 =
     (if \<not> frac_shared_embed < 1 then Inl AssertionError
      else bindE (Embedding_init n_embed embed_dim w0) (\<lambda>W.
        let col_embed_dim = (if add_shared_embed then int embed_dim
                             else py_int (real embed_dim * frac_shared_embed))
        in if col_embed_dim < 0 then Inl RuntimeError
           else bindE (DropoutLayers_init full_embed_dropout embed_dropout) (\<lambda>dp.
             Inr \<lparr> se_add_shared_embed = add_shared_embed,
                   se_embed = map (map (clamp (- 2) 2)) W,
                   se_shared_embed = tabulate1 (nat col_embed_dim) s0,
                   se_dropout = dp \<rparr>)))"

text \<open>
  \<^verbatim>\<open>forward\<close> on a vector of \<open>N\<close> codes. \<^verbatim>\<open>self.shared_embed.expand(N, -1)\<close> gives every row
  the shared vector. \<^verbatim>\<open>out += shared_embed\<close> adds in place (widths equal, or the shared
  vector has width 1); \<^verbatim>\<open>out[:, :k] = shared_embed\<close> overwrites the first \<open>k\<close> entries of
  every row (the slice has width \<open>min k D\<close>, and the shared vector must have that width or
  width 1).
\<close>

definition se_add :: "tensor1 \<Rightarrow> tensor1 \<Rightarrow> tensor1 result" where
  "se_add shared row =
     (if length shared = length row then Inr (map2 (+) row shared)
      else if length shared = 1 then Inr (map (\<lambda>v. v + shared ! 0) row)
      else Inl RuntimeError)"

definition se_overwrite :: "tensor1 \<Rightarrow> tensor1 \<Rightarrow> tensor1 result" where
  "se_overwrite shared row =
     (if length shared \<le> length row then Inr (shared @ drop (length shared) row)
      else if length shared = 1 then Inr row
      else Inl RuntimeError)"

definition DropoutLayers_forward2 ::
  "DropoutLayers \<Rightarrow> bool \<Rightarrow> (nat list \<Rightarrow> bool) \<Rightarrow> (nat \<Rightarrow> real) \<Rightarrow> tensor2 \<Rightarrow> tensor2 result" where
  "DropoutLayers_forward2 dp training keep m x =
     (case dp of
        NnDropout p \<Rightarrow> F_dropout2 p training keep x
      | FullDropout d \<Rightarrow> FullEmbeddingDropout_forward2 d training m x)"

definition DropoutLayers_forward3 ::
  "DropoutLayers \<Rightarrow> bool \<Rightarrow> (nat list \<Rightarrow> bool) \<Rightarrow> (nat \<Rightarrow> real) \<Rightarrow> tensor3 \<Rightarrow> tensor3 result" where
  "DropoutLayers_forward3 dp training keep m x =
     (case dp of
        NnDropout p \<Rightarrow> F_dropout3 p training keep x
      | FullDropout d \<Rightarrow> FullEmbeddingDropout_forward3 d training m x)"

definition SharedEmbeddings_forward ::
  "SharedEmbeddings \<Rightarrow> bool \<Rightarrow> (nat list \<Rightarrow> bool) \<Rightarrow> (nat \<Rightarrow> real) \<Rightarrow> int list
   \<Rightarrow> tensor2 result" where
  "SharedEmbeddings_forward self training keep m X =
     bindE (mapE (Embedding_forward (se_embed self)) X) (\<lambda>e.
     bindE (DropoutLayers_forward2 (se_dropout self) training keep m e) (\<lambda>out.
       if se_add_shared_embed self then mapE (se_add (se_shared_embed self)) out
       else mapE (se_overwrite (se_shared_embed self)) out))"

text \<open>
  The entry \<open>[n, c, d]\<close> that the contract of the continuous embedder prescribes before
  the activation.
\<close>

definition ce_formula :: "ContEmbeddings \<Rightarrow> tensor2 \<Rightarrow> nat \<Rightarrow> nat \<Rightarrow> nat \<Rightarrow> real" where
  "ce_formula self X n c d =
     (case ce_bias self of
        None \<Rightarrow> ce_weight self ! c ! d * X ! n ! c
      | Some B \<Rightarrow> ce_weight self ! c ! d * X ! n ! c + B ! c ! d)"

section \<open>\<^verbatim>\<open>nn.ModuleDict\<close> and \<^verbatim>\<open>torch.cat\<close>\<close>

text \<open>The name \<^verbatim>\<open>"emb_layer_" + col\<close> of the layer of a column.\<close>

definition emb_layer :: "string \<Rightarrow> string" where
  "emb_layer col = ''emb_layer_'' @ col"

text \<open>
  Library behaviour: a dictionary literal keeps, for a key that occurs twice, the value
  given last; \<^verbatim>\<open>nn.ModuleDict\<close> registers every key as a submodule and rejects a key
  that contains a dot with \<^verbatim>\<open>KeyError\<close>.
\<close>

definition ModuleDict_init :: "(string \<times> 'a) list \<Rightarrow> (string \<rightharpoonup> 'a) result" where
  "ModuleDict_init items =
     (if \<exists>k\<in>set (map fst items). CHR ''.'' \<in> set k then Inl KeyError
      else Inr (map_of (rev items)))"

text \<open>
  \<^verbatim>\<open>torch.cat(ts, 1)\<close> of tensors of shape \<open>(N, d\<^sub>k)\<close>: an empty list of tensors is
  rejected (\<^verbatim>\<open>ValueError\<close>; \<^verbatim>\<open>RuntimeError\<close> in older versions of the library); row \<open>n\<close> of the result is the concatenation of the rows \<open>n\<close>. The second
  function is the same for tensors \<open>t.unsqueeze(1)\<close> of shape \<open>(N, 1, D)\<close>: row \<open>n\<close> of the
  result lists the vectors \<open>n\<close>. (The modules below only concatenate tensors they have
  built over one batch, so the other sizes agree.)
\<close>

definition torch_cat1 :: "nat \<Rightarrow> tensor2 list \<Rightarrow> tensor2 result" where
  "torch_cat1 N ts =
     (if ts = [] then Inl ValueError
      else Inr (map (\<lambda>n. concat (map (\<lambda>t. t ! n) ts)) [0..<N]))"

definition torch_cat1_unsqueezed :: "nat \<Rightarrow> tensor2 list \<Rightarrow> tensor3 result" where
  "torch_cat1_unsqueezed N ts =
     (if ts = [] then Inl ValueError
      else Inr (map (\<lambda>n. map (\<lambda>t. t ! n) ts) [0..<N]))"

section \<open>\<^verbatim>\<open>DiffSizeCatEmbeddings\<close>\<close>

text \<open>
  \<open>dce_embed_layers\<close> maps the name of a layer to the weight of its embedding table;
  \<open>w0 col\<close> are the draws of the table that the dictionary keeps for column \<open>col\<close>.
  Cardinalities and widths are natural numbers: a size is never negative.
\<close>

record DiffSizeCatEmbeddings =
  dce_column_idx :: "string \<rightharpoonup> int"
  dce_embed_input :: "(string \<times> nat \<times> nat) list"
  dce_embed_layers :: "string \<rightharpoonup> tensor2"
  dce_embedding_dropout :: real
  dce_emb_out_dim :: nat

definition DiffSizeCatEmbeddings_init ::
  "(string \<rightharpoonup> int) \<Rightarrow> (string \<times> nat \<times> nat) list \<Rightarrow> real \<Rightarrow> (string \<Rightarrow> nat \<Rightarrow> nat \<Rightarrow> real)
   \<Rightarrow> DiffSizeCatEmbeddings result" where
  "DiffSizeCatEmbeddings_init column_idx embed_input embed_dropout w0 =
     bindE (mapE (\<lambda>(col, val, edim).
                    bindE (Embedding_init (val + 1) edim (w0 col))
                      (\<lambda>W. Inr (emb_layer col, W))) embed_input) (\<lambda>items.
     bindE (ModuleDict_init items) (\<lambda>layers.
     bindE (Dropout_init embed_dropout) (\<lambda>p.
       Inr \<lparr> dce_column_idx = column_idx, dce_embed_input = embed_input,
             dce_embed_layers = layers, dce_embedding_dropout = p,
             dce_emb_out_dim = sum_list (map (\<lambda>embed. snd (snd embed)) embed_input) \<rparr>)))"

definition DiffSizeCatEmbeddings_forward ::
  "DiffSizeCatEmbeddings \<Rightarrow> bool \<Rightarrow> (nat list \<Rightarrow> bool) \<Rightarrow> tensor2 \<Rightarrow> tensor2 result" where
  "DiffSizeCatEmbeddings_forward self training keep X =
     bindE (mapE (\<lambda>(col, val, edim).
                    bindE (getitem (dce_embed_layers self) (emb_layer col)) (\<lambda>W.
                    bindE (getitem (dce_column_idx self) col) (\<lambda>i.
                    bindE (select_col X i) (\<lambda>xs.
                      mapE (\<lambda>x. Embedding_forward W (long x)) xs))))
             (dce_embed_input self)) (\<lambda>embed.
     bindE (torch_cat1 (length X) embed) (\<lambda>x.
       F_dropout2 (dce_embedding_dropout self) training keep x))"

section \<open>\<^verbatim>\<open>SameSizeCatEmbeddings\<close>\<close>

text \<open>
  \<^verbatim>\<open>self.embed\<close> is a dictionary of shared-embedding wrappers or one embedding table.
  \<^verbatim>\<open>self.bias\<close> is assigned only under \<^verbatim>\<open>use_bias is not None\<close> and \<^verbatim>\<open>self.dropout\<close> only in
  single-table mode: \<open>None\<close> in these two fields is an attribute that was never assigned,
  and reading it raises \<^verbatim>\<open>AttributeError\<close>. \<open>use_bias\<close> is \<open>None\<close> or a boolean. The
  constructor returns the warnings it has emitted and then the instance or the error.
  \<open>b0\<close> are the draws of the bias, \<open>t0\<close> those of the single table, \<open>w0 col\<close> and
  \<open>s0 col\<close> those of the wrapper that the dictionary keeps for column \<open>col\<close>.
\<close>

datatype warning = UserWarning string

definition bias_warning :: warning where
  "bias_warning =
     UserWarning ''The current implementation of 'SharedEmbeddings' does not use bias''"

datatype SameSizeEmbed = ModuleDict "string \<rightharpoonup> SharedEmbeddings" | Embedding tensor2

record SameSizeCatEmbeddings =
  sce_column_idx :: "string \<rightharpoonup> int"
  sce_embed_input :: "(string \<times> nat) list"
  sce_embed_dropout :: real
  sce_shared_embed :: bool
  sce_n_tokens :: nat
  sce_categorical_cols :: "string list"
  sce_cat_idx :: "int list"
  sce_bias :: "tensor2 option"
  sce_embed :: SameSizeEmbed
  sce_dropout :: "DropoutLayers option"

definition SameSizeCatEmbeddings_init ::
  "nat \<Rightarrow> (string \<rightharpoonup> int) \<Rightarrow> (string \<times> nat) list option \<Rightarrow> real \<Rightarrow> bool \<Rightarrow> bool \<Rightarrow> bool
   \<Rightarrow> real \<Rightarrow> bool option \<Rightarrow> (nat \<Rightarrow> nat \<Rightarrow> real) \<Rightarrow> (nat \<Rightarrow> nat \<Rightarrow> real)
   \<Rightarrow> (string \<Rightarrow> nat \<Rightarrow> nat \<Rightarrow> real) \<Rightarrow> (string \<Rightarrow> nat \<Rightarrow> real)
   \<Rightarrow> warning list \<times> SameSizeCatEmbeddings result" where
  "SameSizeCatEmbeddings_init embed_dim column_idx embed_input embed_dropout
       full_embed_dropout shared_embed add_shared_embed frac_shared_embed use_bias b0 t0 w0 s0 =
     (case embed_input of
        None \<Rightarrow> ([], Inl TypeError)
      | Some ei \<Rightarrow>
         (case mapE (getitem column_idx) (map fst ei) of
            Inl e \<Rightarrow> ([], Inl e)
          | Inr cat_idx \<Rightarrow>
             (let bias = (if use_bias \<noteq> None
                          then Some (tabulate2 (length (map fst ei)) embed_dim b0) else None);
                  warnings = (if use_bias \<noteq> None \<and> shared_embed
                              then [bias_warning] else []);
                  mk = (\<lambda>embed dropout.
                          \<lparr> sce_column_idx = column_idx, sce_embed_input = ei,
                            sce_embed_dropout = embed_dropout, sce_shared_embed = shared_embed,
                            sce_n_tokens = sum_list (map snd ei),
                            sce_categorical_cols = map fst ei, sce_cat_idx = cat_idx,
                            sce_bias = bias, sce_embed = embed, sce_dropout = dropout \<rparr>)
              in (warnings,
                  if shared_embed then
                    bindE (mapE (\<lambda>(col, val).
                             bindE (SharedEmbeddings_init
                                      (if col = ''cls_token'' then val else val + 1)
                                      embed_dim embed_dropout full_embed_dropout
                                      add_shared_embed frac_shared_embed (w0 col) (s0 col))
                               (\<lambda>layer. Inr (emb_layer col, layer))) ei) (\<lambda>items.
                    bindE (ModuleDict_init items) (\<lambda>layers.
                      Inr (mk (ModuleDict layers) None)))
                  else
                    bindE (Embedding_init (sum_list (map snd ei) + 1) embed_dim t0) (\<lambda>W.
                    bindE (DropoutLayers_init full_embed_dropout embed_dropout) (\<lambda>dp.
                      Inr (mk (Embedding W) (Some dp))))))))"

text \<open>
  \<^verbatim>\<open>forward\<close>. Subscripting an embedding table and calling a module dictionary are
  failures of the library (the constructor never builds an instance on which they occur).
  In training mode the wrapper of the column at position \<open>k\<close> draws its own dropout masks
  \<open>keep (k # _)\<close> and \<open>m k\<close>.
\<close>

definition SameSizeCatEmbeddings_forward ::
  "SameSizeCatEmbeddings \<Rightarrow> bool \<Rightarrow> (nat list \<Rightarrow> bool) \<Rightarrow> (nat \<Rightarrow> nat \<Rightarrow> real) \<Rightarrow> tensor2
   \<Rightarrow> tensor3 result" where
  "SameSizeCatEmbeddings_forward self training keep m X =
     (if sce_shared_embed self then
        bindE (mapE (\<lambda>(k, (col, val)).
                 bindE (case sce_embed self of
                          ModuleDict layers \<Rightarrow> getitem layers (emb_layer col)
                        | Embedding W \<Rightarrow> Inl TypeError) (\<lambda>layer.
                 bindE (getitem (sce_column_idx self) col) (\<lambda>i.
                 bindE (select_col X i) (\<lambda>xs.
                   SharedEmbeddings_forward layer training (\<lambda>js. keep (k # js)) (m k)
                     (map long xs)))))
               (enumerate 0 (sce_embed_input self))) (\<lambda>cat_embed.
          torch_cat1_unsqueezed (length X) cat_embed)
      else
        bindE (case sce_embed self of
                 ModuleDict layers \<Rightarrow> Inl NotImplementedError
               | Embedding W \<Rightarrow> Inr W) (\<lambda>W.
        bindE (select_cols X (sce_cat_idx self)) (\<lambda>codes.
        bindE (mapE (mapE (\<lambda>x. Embedding_forward W (long x))) codes) (\<lambda>x.
        bindE (case sce_bias self of
                 None \<Rightarrow> Inl AttributeError
               | Some B \<Rightarrow> add_bias B x) (\<lambda>x.
          (case sce_dropout self of
             None \<Rightarrow> Inl AttributeError
           | Some dp \<Rightarrow> DropoutLayers_forward3 dp training keep (m 0) x))))))"

section \<open>The composite embedders\<close>

text \<open>
  The normalisation layers belong to the library and compute with means, variances and
  running statistics; their forward pass is the argument \<open>nf\<close> of the forward functions.
  \<^verbatim>\<open>nn.Identity\<close> returns its input, and \<^verbatim>\<open>nn.BatchNorm1d\<close> in training mode rejects a
  batch of one row with \<^verbatim>\<open>ValueError\<close> (it needs more than one value per channel).
\<close>

datatype NormLayers = LayerNorm nat | BatchNorm1d nat | Identity

definition NormLayers_init :: "string option \<Rightarrow> nat \<Rightarrow> NormLayers" where
  "NormLayers_init cont_norm_layer n =
     (if cont_norm_layer = Some ''layernorm'' then LayerNorm n
      else if cont_norm_layer = Some ''batchnorm'' then BatchNorm1d n
      else Identity)"

definition NormLayers_forward ::
  "(NormLayers \<Rightarrow> bool \<Rightarrow> tensor2 \<Rightarrow> tensor2 result) \<Rightarrow> NormLayers \<Rightarrow> bool \<Rightarrow> tensor2
   \<Rightarrow> tensor2 result" where
  "NormLayers_forward nf layer training x =
     (case layer of
        Identity \<Rightarrow> Inr x
      | BatchNorm1d n \<Rightarrow>
          if training \<and> length x = 1 then Inl ValueError else nf layer training x
      | LayerNorm n \<Rightarrow> nf layer training x)"

text \<open>An attribute that is assigned only on some paths of the constructor.\<close>

definition attr :: "'a option \<Rightarrow> 'a result" where
  "attr a = (case a of None \<Rightarrow> Inl AttributeError | Some v \<Rightarrow> Inr v)"

record DiffSizeCatAndContEmbeddings =
  dcc_cat_embed_input :: "(string \<times> nat \<times> nat) list option"
  dcc_continuous_cols :: "string list option"
  dcc_embed_continuous :: bool
  dcc_cat_embed :: "DiffSizeCatEmbeddings option"
  dcc_cat_out_dim :: nat
  dcc_cont_idx :: "int list option"
  dcc_cont_norm :: "NormLayers option"
  dcc_cont_embed :: "ContEmbeddings option"
  dcc_cont_out_dim :: nat
  dcc_output_dim :: nat

definition DiffSizeCatAndContEmbeddings_init ::
  "(string \<Rightarrow> (tensor3 \<Rightarrow> tensor3 result) result) \<Rightarrow> (string \<rightharpoonup> int)
   \<Rightarrow> (string \<times> nat \<times> nat) list option
   \<Rightarrow> real \<Rightarrow> string list option \<Rightarrow> bool \<Rightarrow> nat \<Rightarrow> real \<Rightarrow> string option \<Rightarrow> bool
   \<Rightarrow> string option \<Rightarrow> (string \<Rightarrow> nat \<Rightarrow> nat \<Rightarrow> real) \<Rightarrow> (nat \<Rightarrow> nat \<Rightarrow> real)
   \<Rightarrow> (nat \<Rightarrow> nat \<Rightarrow> real) \<Rightarrow> DiffSizeCatAndContEmbeddings result" where
  "DiffSizeCatAndContEmbeddings_init get_activation_fn column_idx cat_embed_input
       cat_embed_dropout continuous_cols embed_continuous cont_embed_dim cont_embed_dropout
       cont_embed_activation use_cont_bias cont_norm_layer w0 cw0 cb0 =
     bindE (case cat_embed_input of
              None \<Rightarrow> Inr (None, 0)
            | Some ei \<Rightarrow>
                bindE (DiffSizeCatEmbeddings_init column_idx ei cat_embed_dropout w0)
                  (\<lambda>ce. Inr (Some ce, sum_list (map (\<lambda>embed. snd (snd embed)) ei))))
       (\<lambda>(cat_embed, cat_out_dim).
     bindE (case continuous_cols of
              None \<Rightarrow> Inr (None, None, None, 0)
            | Some cols \<Rightarrow>
                bindE (mapE (getitem column_idx) cols) (\<lambda>cont_idx.
                  if embed_continuous then
                    bindE (ContEmbeddings_init get_activation_fn (length cols) cont_embed_dim
                             cont_embed_dropout use_cont_bias cont_embed_activation cw0 cb0)
                      (\<lambda>ce. Inr (Some cont_idx,
                                  Some (NormLayers_init cont_norm_layer (length cols)),
                                  Some ce, length cols * cont_embed_dim))
                  else Inr (Some cont_idx,
                            Some (NormLayers_init cont_norm_layer (length cols)),
                            None, length cols)))
       (\<lambda>(cont_idx, cont_norm, cont_embed, cont_out_dim).
       Inr \<lparr> dcc_cat_embed_input = cat_embed_input, dcc_continuous_cols = continuous_cols,
             dcc_embed_continuous = embed_continuous, dcc_cat_embed = cat_embed,
             dcc_cat_out_dim = cat_out_dim, dcc_cont_idx = cont_idx,
             dcc_cont_norm = cont_norm, dcc_cont_embed = cont_embed,
             dcc_cont_out_dim = cont_out_dim,
             dcc_output_dim = cat_out_dim + cont_out_dim \<rparr>))"

text \<open>
  \<^verbatim>\<open>forward\<close> returns the pair \<open>(x_cat, x_cont)\<close>; \<open>None\<close> is Python's \<^verbatim>\<open>None\<close>.
  \<^verbatim>\<open>einops.rearrange(x, "b s d -> b (s d)")\<close> concatenates the vectors of every batch row.
\<close>

definition cont_branch ::
  "(NormLayers \<Rightarrow> bool \<Rightarrow> tensor2 \<Rightarrow> tensor2 result) \<Rightarrow> NormLayers option \<Rightarrow> int list option
   \<Rightarrow> bool \<Rightarrow> tensor2 \<Rightarrow> tensor2 result" where
  "cont_branch nf cont_norm cont_idx training X =
     bindE (attr cont_norm) (\<lambda>layer.
     bindE (attr cont_idx) (\<lambda>idx.
     bindE (select_cols X idx) (\<lambda>xc. NormLayers_forward nf layer training xc)))"

definition DiffSizeCatAndContEmbeddings_forward ::
  "(NormLayers \<Rightarrow> bool \<Rightarrow> tensor2 \<Rightarrow> tensor2 result) \<Rightarrow> DiffSizeCatAndContEmbeddings \<Rightarrow> bool
   \<Rightarrow> (nat list \<Rightarrow> bool) \<Rightarrow> (nat list \<Rightarrow> bool) \<Rightarrow> tensor2
   \<Rightarrow> (tensor2 option \<times> tensor2 option) result" where
  "DiffSizeCatAndContEmbeddings_forward nf self training keep ckeep X =
     bindE (case dcc_cat_embed_input self of
              None \<Rightarrow> Inr None
            | Some ei \<Rightarrow>
                bindE (attr (dcc_cat_embed self)) (\<lambda>ce.
                bindE (DiffSizeCatEmbeddings_forward ce training keep X) (\<lambda>x. Inr (Some x))))
       (\<lambda>x_cat.
     bindE (case dcc_continuous_cols self of
              None \<Rightarrow> Inr None
            | Some cols \<Rightarrow>
                bindE (cont_branch nf (dcc_cont_norm self) (dcc_cont_idx self) training X)
                  (\<lambda>x_cont.
                  if dcc_embed_continuous self then
                    bindE (attr (dcc_cont_embed self)) (\<lambda>ce.
                    bindE (ContEmbeddings_forward ce training ckeep x_cont) (\<lambda>x.
                      Inr (Some (map concat x))))
                  else Inr (Some x_cont)))
       (\<lambda>x_cont. Inr (x_cat, x_cont)))"

text \<open>
  The fixed-width composite. Its constructor assigns the attributes listed by
  \<open>SameSizeCatAndContEmbeddings_dir\<close>, the conditional ones only on their paths.
\<close>

record SameSizeCatAndContEmbeddings =
  scc_cat_embed_input :: "(string \<times> nat) list option"
  scc_continuous_cols :: "string list option"
  scc_embed_continuous :: bool
  scc_cat_embed :: "SameSizeCatEmbeddings option"
  scc_cont_idx :: "int list option"
  scc_cont_norm :: "NormLayers option"
  scc_cont_embed :: "ContEmbeddings option"

definition SameSizeCatAndContEmbeddings_init ::
  "(string \<Rightarrow> (tensor3 \<Rightarrow> tensor3 result) result) \<Rightarrow> nat \<Rightarrow> (string \<rightharpoonup> int)
   \<Rightarrow> (string \<times> nat) list option
   \<Rightarrow> real \<Rightarrow> bool \<Rightarrow> bool \<Rightarrow> bool \<Rightarrow> real \<Rightarrow> bool option \<Rightarrow> string list option \<Rightarrow> bool
   \<Rightarrow> real \<Rightarrow> string option \<Rightarrow> bool \<Rightarrow> string option
   \<Rightarrow> (nat \<Rightarrow> nat \<Rightarrow> real) \<Rightarrow> (nat \<Rightarrow> nat \<Rightarrow> real) \<Rightarrow> (string \<Rightarrow> nat \<Rightarrow> nat \<Rightarrow> real)
   \<Rightarrow> (string \<Rightarrow> nat \<Rightarrow> real) \<Rightarrow> (nat \<Rightarrow> nat \<Rightarrow> real) \<Rightarrow> (nat \<Rightarrow> nat \<Rightarrow> real)
   \<Rightarrow> warning list \<times> SameSizeCatAndContEmbeddings result" where
  "SameSizeCatAndContEmbeddings_init get_activation_fn embed_dim column_idx cat_embed_input
       cat_embed_dropout full_embed_dropout shared_embed add_shared_embed frac_shared_embed
       use_embed_bias continuous_cols embed_continuous cont_embed_dropout
       cont_embed_activation use_cont_bias cont_norm_layer b0 t0 w0 s0 cw0 cb0 =
     (let (warnings, cat) =
        (case cat_embed_input of
           None \<Rightarrow> ([], Inr None)
         | Some ei \<Rightarrow>
             (let (ws, r) = SameSizeCatEmbeddings_init embed_dim column_idx (Some ei)
                              cat_embed_dropout full_embed_dropout shared_embed
                              add_shared_embed frac_shared_embed use_embed_bias b0 t0 w0 s0
              in (ws, bindE r (\<lambda>ce. Inr (Some ce)))))
      in (warnings,
          bindE cat (\<lambda>cat_embed.
          bindE (case continuous_cols of
                   None \<Rightarrow> Inr (None, None, None)
                 | Some cols \<Rightarrow>
                     bindE (mapE (getitem column_idx) cols) (\<lambda>cont_idx.
                       if embed_continuous then
                         bindE (ContEmbeddings_init get_activation_fn (length cols) embed_dim
                                  cont_embed_dropout use_cont_bias cont_embed_activation
                                  cw0 cb0)
                           (\<lambda>ce. Inr (Some cont_idx,
                                       Some (NormLayers_init cont_norm_layer (length cols)),
                                       Some ce))
                       else Inr (Some cont_idx,
                                 Some (NormLayers_init cont_norm_layer (length cols)), None)))
            (\<lambda>(cont_idx, cont_norm, cont_embed).
            Inr \<lparr> scc_cat_embed_input = cat_embed_input,
                  scc_continuous_cols = continuous_cols,
                  scc_embed_continuous = embed_continuous, scc_cat_embed = cat_embed,
                  scc_cont_idx = cont_idx, scc_cont_norm = cont_norm,
                  scc_cont_embed = cont_embed \<rparr>))))"

definition SameSizeCatAndContEmbeddings_dir :: "SameSizeCatAndContEmbeddings \<Rightarrow> string list" where
  "SameSizeCatAndContEmbeddings_dir self =
     [''cat_embed_input'', ''continuous_cols'', ''embed_continuous'']
     @ (case scc_cat_embed self of None \<Rightarrow> [] | Some ce \<Rightarrow> [''cat_embed''])
     @ (case scc_cont_idx self of None \<Rightarrow> [] | Some idx \<Rightarrow> [''cont_idx''])
     @ (case scc_cont_norm self of None \<Rightarrow> [] | Some layer \<Rightarrow> [''cont_norm''])
     @ (case scc_cont_embed self of None \<Rightarrow> [] | Some ce \<Rightarrow> [''cont_embed''])"

definition DiffSizeCatAndContEmbeddings_dir :: "DiffSizeCatAndContEmbeddings \<Rightarrow> string list" where
  "DiffSizeCatAndContEmbeddings_dir self =
     [''cat_embed_input'', ''continuous_cols'', ''embed_continuous'']
     @ (case dcc_cat_embed self of None \<Rightarrow> [] | Some ce \<Rightarrow> [''cat_embed''])
     @ [''cat_out_dim'']
     @ (case dcc_cont_idx self of None \<Rightarrow> [] | Some idx \<Rightarrow> [''cont_idx''])
     @ (case dcc_cont_norm self of None \<Rightarrow> [] | Some layer \<Rightarrow> [''cont_norm''])
     @ (case dcc_cont_embed self of None \<Rightarrow> [] | Some ce \<Rightarrow> [''cont_embed''])
     @ [''cont_out_dim'', ''output_dim'']"

datatype cont_out = Raw tensor2 | Tokens tensor3

definition SameSizeCatAndContEmbeddings_forward ::
  "(NormLayers \<Rightarrow> bool \<Rightarrow> tensor2 \<Rightarrow> tensor2 result) \<Rightarrow> SameSizeCatAndContEmbeddings \<Rightarrow> bool
   \<Rightarrow> (nat list \<Rightarrow> bool) \<Rightarrow> (nat \<Rightarrow> nat \<Rightarrow> real) \<Rightarrow> (nat list \<Rightarrow> bool) \<Rightarrow> tensor2
   \<Rightarrow> (tensor3 option \<times> cont_out option) result" where
  "SameSizeCatAndContEmbeddings_forward nf self training keep m ckeep X =
     bindE (case scc_cat_embed_input self of
              None \<Rightarrow> Inr None
            | Some ei \<Rightarrow>
                bindE (attr (scc_cat_embed self)) (\<lambda>ce.
                bindE (SameSizeCatEmbeddings_forward ce training keep m X) (\<lambda>x. Inr (Some x))))
       (\<lambda>x_cat.
     bindE (case scc_continuous_cols self of
              None \<Rightarrow> Inr None
            | Some cols \<Rightarrow>
                bindE (cont_branch nf (scc_cont_norm self) (scc_cont_idx self) training X)
                  (\<lambda>x_cont.
                  if scc_embed_continuous self then
                    bindE (attr (scc_cont_embed self)) (\<lambda>ce.
                    bindE (ContEmbeddings_forward ce training ckeep x_cont) (\<lambda>x.
                      Inr (Some (Tokens x))))
                  else Inr (Some (Raw x_cont))))
       (\<lambda>x_cont. Inr (x_cat, x_cont)))"

section \<open>Preconditions and shapes\<close>

text \<open>
  The preconditions on a batch. For the variable-width embedder: every categorical column
  has a position in the column index, the position exists in every row, and the code found
  there (after \<^verbatim>\<open>.long()\<close>) lies in \<open>[0, cardinality]\<close>.
\<close>

definition codes_in_range :: "(string \<rightharpoonup> int) \<Rightarrow> (string \<times> nat \<times> nat) list \<Rightarrow> tensor2 \<Rightarrow> bool" where
  "codes_in_range column_idx embed_input X \<longleftrightarrow>
     (\<forall>(col, val, edim)\<in>set embed_input. \<exists>i. column_idx col = Some i \<and>
        (\<forall>row\<in>set X. \<exists>j. index_dim (length row) i = Inr j
            \<and> 0 \<le> long (row ! j) \<and> long (row ! j) \<le> int val))"

text \<open>The weight of the table built for an entry of \<open>embed_input\<close>.\<close>

definition dce_table :: "(string \<Rightarrow> nat \<Rightarrow> nat \<Rightarrow> real) \<Rightarrow> string \<times> nat \<times> nat \<Rightarrow> tensor2" where
  "dce_table w0 e = (case e of (col, val, edim) \<Rightarrow>
     tabulate2 (val + 1) edim (\<lambda>i j. if i = 0 then 0 else w0 col i j))"

text \<open>\<^verbatim>\<open>hasattr(self, name)\<close>, on the list of the attributes that the constructor assigned.\<close>

definition hasattr :: "string list \<Rightarrow> string \<Rightarrow> bool" where
  "hasattr names name \<longleftrightarrow> name \<in> set names"

text \<open>
  Arguments of the concrete instances below: a \<^verbatim>\<open>get_activation_fn\<close> that knows no
  activation, one that knows the entrywise \<^verbatim>\<open>relu\<close> and the gated \<^verbatim>\<open>reglu\<close>, draws that
  are all the same value, a dropout mask that keeps every entry, and a normalisation
  that returns its input.
\<close>

definition get_activation_none :: "string \<Rightarrow> (tensor3 \<Rightarrow> tensor3 result) result" where
  "get_activation_none a = Inl ValueError"

definition get_activation_relu_reglu :: "string \<Rightarrow> (tensor3 \<Rightarrow> tensor3 result) result" where
  "get_activation_relu_reglu a =
     (if a = ''relu'' then Inr (entrywise relu)
      else if a = ''reglu'' then Inr (gated_unit relu)
      else Inl ValueError)"

definition const_draws :: "real \<Rightarrow> nat \<Rightarrow> nat \<Rightarrow> real" where
  "const_draws v i j = v"

definition keep_all :: "nat list \<Rightarrow> bool" where
  "keep_all js = True"

definition norm_input :: "NormLayers \<Rightarrow> bool \<Rightarrow> tensor2 \<Rightarrow> tensor2 result" where
  "norm_input layer training x = Inr x"

definition zero_draws :: "nat \<Rightarrow> nat \<Rightarrow> real" where
  "zero_draws i j = 0"

definition zero_column_draws :: "string \<Rightarrow> nat \<Rightarrow> nat \<Rightarrow> real" where
  "zero_column_draws col i j = 0"

definition zero_shared_draws :: "string \<Rightarrow> nat \<Rightarrow> real" where
  "zero_shared_draws col j = 0"

text \<open>Every continuous column has a position in the column index that exists in every row.\<close>

definition cont_cols_in_range :: "(string \<rightharpoonup> int) \<Rightarrow> string list \<Rightarrow> tensor2 \<Rightarrow> bool" where
  "cont_cols_in_range column_idx cols X \<longleftrightarrow>
     (\<forall>col\<in>set cols. \<exists>i. column_idx col = Some i \<and>
        (\<forall>row\<in>set X. \<exists>j. index_dim (length row) i = Inr j))"

text \<open>
  What is assumed of the normalisation layer of the library, for the one call that the
  forward pass makes: on the continuous columns selected from this batch, in this mode,
  it returns a tensor of the shape of its input.
\<close>

definition same_shape :: "tensor2 \<Rightarrow> tensor2 \<Rightarrow> bool" where
  "same_shape t t' \<longleftrightarrow>
     length t' = length t \<and> (\<forall>n<length t. length (t' ! n) = length (t ! n))"

definition norm_returns ::
  "(NormLayers \<Rightarrow> bool \<Rightarrow> tensor2 \<Rightarrow> tensor2 result) \<Rightarrow> (string \<rightharpoonup> int) \<Rightarrow> string list option
   \<Rightarrow> string option \<Rightarrow> bool \<Rightarrow> tensor2 \<Rightarrow> bool" where
  "norm_returns nf column_idx continuous_cols cont_norm_layer training X \<longleftrightarrow>
     (case continuous_cols of
        None \<Rightarrow> True
      | Some cols \<Rightarrow>
          (case bindE (mapE (getitem column_idx) cols) (select_cols X) of
             Inl e \<Rightarrow> False
           | Inr xc \<Rightarrow>
               (case NormLayers_forward nf (NormLayers_init cont_norm_layer (length cols))
                       training xc of
                  Inl e \<Rightarrow> False
                | Inr t \<Rightarrow> same_shape xc t)))"

text \<open>
  The activation of the continuous embedder is absent or acts on every entry by itself.
\<close>

definition entrywise_activation ::
  "(string \<Rightarrow> (tensor3 \<Rightarrow> tensor3 result) result) \<Rightarrow> string option \<Rightarrow> bool" where
  "entrywise_activation get_activation_fn activation \<longleftrightarrow>
     (case activation of
        None \<Rightarrow> True
      | Some a \<Rightarrow> a = [] \<or> (\<exists>f. get_activation_fn a = Inr (entrywise f)))"

text \<open>The width of row \<open>n\<close> of a branch; an absent branch has width 0.\<close>

definition branch_width :: "tensor2 option \<Rightarrow> nat \<Rightarrow> nat" where
  "branch_width x n = (case x of None \<Rightarrow> 0 | Some t \<Rightarrow> length (t ! n))"

text \<open>A tensor of shape \<open>(N, C, D)\<close>.\<close>

definition shape3 :: "nat \<Rightarrow> nat \<Rightarrow> nat \<Rightarrow> tensor3 \<Rightarrow> bool" where
  "shape3 N C D x \<longleftrightarrow> length x = N \<and> (\<forall>m\<in>set x. length m = C \<and> (\<forall>v\<in>set m. length v = D))"

text \<open>
  A valid specification and batch for the variable-width composite: a categorical
  specification, when given, lists at least one column, names every column once and
  meets \<open>codes_in_range\<close>; the continuous columns, when given, meet
  \<open>cont_cols_in_range\<close>.
\<close>

definition valid_batch ::
  "(string \<rightharpoonup> int) \<Rightarrow> (string \<times> nat \<times> nat) list option \<Rightarrow> string list option \<Rightarrow> tensor2 \<Rightarrow> bool" where
  "valid_batch column_idx cat_embed_input continuous_cols X \<longleftrightarrow>
     (case cat_embed_input of
        None \<Rightarrow> True
      | Some ei \<Rightarrow> ei \<noteq> [] \<and> distinct (map fst ei) \<and> codes_in_range column_idx ei X)
     \<and> (case continuous_cols of
          None \<Rightarrow> True
        | Some cols \<Rightarrow> cont_cols_in_range column_idx cols X)"

text \<open>
  For the single table of the fixed-width embedder the codes, which arrive offset, lie in
  \<open>[0, n_tokens]\<close>.
\<close>

definition table_codes_in_range :: "(string \<rightharpoonup> int) \<Rightarrow> (string \<times> nat) list \<Rightarrow> tensor2 \<Rightarrow> bool" where
  "table_codes_in_range column_idx embed_input X \<longleftrightarrow>
     (\<forall>(col, val)\<in>set embed_input. \<exists>i. column_idx col = Some i \<and>
        (\<forall>row\<in>set X. \<exists>j. index_dim (length row) i = Inr j
            \<and> 0 \<le> long (row ! j) \<and> long (row ! j) \<le> int (sum_list (map snd embed_input))))"

text \<open>The position that a valid index \<open>i\<close> denotes in a dimension of size \<open>n\<close>.\<close>

definition pos :: "nat \<Rightarrow> int \<Rightarrow> nat" where
  "pos n i = (if 0 \<le> i then nat i else nat (i + int n))"

text \<open>
  Lookup, then bias: for every row of the batch and every categorical column \<open>k\<close> (at
  position \<open>idx ! k\<close> of the row), the row of the table \<open>W\<close> for the code plus row \<open>k\<close> of
  the bias \<open>B\<close>.
\<close>

definition lookup_plus_bias :: "tensor2 \<Rightarrow> tensor2 \<Rightarrow> int list \<Rightarrow> nat \<Rightarrow> tensor2 \<Rightarrow> tensor3" where
  "lookup_plus_bias W B idx K X =
     map (\<lambda>row. map (\<lambda>k. map2 (+) (W ! nat (long (row ! pos (length row) (idx ! k)))) (B ! k))
                 [0..<K]) X"

section \<open>Properties\<close>

text \<open>
  Claim C2. In training mode with dropout probability \<open>p = 0\<close>, full-row dropout should
  return its input unchanged. The constructor accepts \<open>p = 0\<close> and stores it as the
  attribute \<^verbatim>\<open>p\<close>, but \<^verbatim>\<open>forward\<close> reads the attribute \<^verbatim>\<open>dropout\<close>, which no code of the
  class assigns: in training mode the call raises \<^verbatim>\<open>AttributeError\<close>, here at
  \<open>X = [[1, 2]]\<close> and \<open>X = [[[1, 2]]]\<close>, while in evaluation mode it returns \<open>X\<close>.
\<close>

theorem FullEmbeddingDropout_training_p0_raises:
  "FullEmbeddingDropout_init 0 = Inr [(''p'', 0)]
   \<and> FullEmbeddingDropout_forward2 [(''p'', 0)] True m [[1, 2]] = Inl AttributeError
   \<and> FullEmbeddingDropout_forward3 [(''p'', 0)] True m [[[1, 2]]] = Inl AttributeError
   \<and> FullEmbeddingDropout_forward2 [(''p'', 0)] False m [[1, 2]] = Inr [[1, 2]]"
  by (simp add: FullEmbeddingDropout_init_def FullEmbeddingDropout_forward2_def
      FullEmbeddingDropout_forward3_def getattr_def bindE_def)

lemma bindE_Inr [simp]: "bindE (Inr v) f = f v" by (simp add: bindE_def)

lemma bindE_Inl [simp]: "bindE (Inl e) f = Inl e" by (simp add: bindE_def)

lemma bindE_eq_Inr: "bindE m f = Inr y \<longleftrightarrow> (\<exists>v. m = Inr v \<and> f v = Inr y)"
  by (cases m) simp_all

lemma mapE_Inr: "(\<And>x. x \<in> set xs \<Longrightarrow> f x = Inr (g x)) \<Longrightarrow> mapE f xs = Inr (map g xs)"
  by (induction xs) simp_all

lemma mapE_length: "mapE f xs = Inr ys \<Longrightarrow> length ys = length xs"
  by (induction xs arbitrary: ys) (auto simp: bindE_eq_Inr)

lemma mapE_nth: "mapE f xs = Inr ys \<Longrightarrow> i < length xs \<Longrightarrow> f (xs ! i) = Inr (ys ! i)"
proof (induction xs arbitrary: ys i)
  case Nil then show ?case by simp
next
  case (Cons x xs)
  then show ?case by (cases i) (auto simp: bindE_eq_Inr)
qed

lemma length_tabulate1 [simp]: "length (tabulate1 d f) = d" by (simp add: tabulate1_def)

lemma nth_tabulate1 [simp]: "j < d \<Longrightarrow> tabulate1 d f ! j = f j" by (simp add: tabulate1_def)

lemma length_tabulate2 [simp]: "length (tabulate2 n d f) = n" by (simp add: tabulate2_def)

lemma nth_tabulate2 [simp]: "i < n \<Longrightarrow> tabulate2 n d f ! i = tabulate1 d (f i)" by (simp add: tabulate2_def)

lemma Embedding_init_Inr: "Embedding_init n d w0 = Inr W \<Longrightarrow> 0 < n \<and> length W = n \<and> (\<forall>i<n. length (W ! i) = d)"
  by (auto simp: Embedding_init_def split: if_splits)

lemma py_int_frac_le:
  assumes "fr < 1" "0 \<le> py_int (real d * fr)"
  shows "nat (py_int (real d * fr)) \<le> d"
proof -
  have le: "real d * fr \<le> real d" using assms(1) by (simp add: mult_left_le)
  show ?thesis
  proof (cases "0 \<le> real d * fr")
    case True
    then have "py_int (real d * fr) = \<lfloor>real d * fr\<rfloor>" by (simp add: py_int_def)
    moreover have "\<lfloor>real d * fr\<rfloor> \<le> int d" using le by (simp add: floor_le_iff) 
    ultimately show ?thesis by simp
  next
    case False
    then have "py_int (real d * fr) = \<lceil>real d * fr\<rceil>" by (simp add: py_int_def)
    moreover have "\<lceil>real d * fr\<rceil> \<le> 0" using False by (simp add: ceiling_le_iff)
    ultimately show ?thesis by simp
  qed
qed

lemma DropoutLayers_forward2_eval:
  "DropoutLayers_init full p = Inr dp \<Longrightarrow> DropoutLayers_forward2 dp False keep m x = Inr x"
  by (auto simp: DropoutLayers_init_def DropoutLayers_forward2_def Dropout_init_def
      FullEmbeddingDropout_init_def F_dropout2_def FullEmbeddingDropout_forward2_def
      split: if_splits)

lemma SharedEmbeddings_init_Inr:
  assumes "SharedEmbeddings_init n d p full add fr w0 s0 = Inr self"
  shows "fr < 1" "0 < n" "length (se_embed self) = n" "\<forall>i<n. length (se_embed self ! i) = d"
    "se_add_shared_embed self = add"
    "length (se_shared_embed self) = (if add then d else nat (py_int (real d * fr)))"
    "length (se_shared_embed self) \<le> d"
    "\<exists>dp. DropoutLayers_init full p = Inr dp \<and> se_dropout self = dp"
  using assms py_int_frac_le[of fr d]
  by (auto simp: SharedEmbeddings_init_def bindE_eq_Inr Let_def dest!: Embedding_init_Inr split: if_splits)

lemma SharedEmbeddings_init_ok:
  assumes "fr < 1" "0 \<le> fr \<or> add" "0 < n" "0 \<le> p" "p \<le> 1"
  shows "\<exists>self. SharedEmbeddings_init n d p full add fr w0 s0 = Inr self"
proof -
  have "add \<or> 0 \<le> py_int (real d * fr)" using assms(2) by (auto simp: py_int_def)
  then show ?thesis using assms
    by (auto simp: SharedEmbeddings_init_def Embedding_init_def DropoutLayers_init_def
      Dropout_init_def FullEmbeddingDropout_init_def Let_def)
qed

lemma SharedEmbeddings_forward_eval:
  assumes init: "SharedEmbeddings_init n d p full add fr w0 s0 = Inr self"
    and X: "\<forall>c\<in>set X. 0 \<le> c \<and> c < int n"
  shows "SharedEmbeddings_forward self False keep m X =
     Inr (map (\<lambda>c. if add then map2 (+) (se_embed self ! nat c) (se_shared_embed self)
                    else se_shared_embed self @ drop (length (se_shared_embed self)) (se_embed self ! nat c)) X)"
proof -
  note I = SharedEmbeddings_init_Inr[OF init]
  have look: "mapE (Embedding_forward (se_embed self)) X = Inr (map (\<lambda>c. se_embed self ! nat c) X)"
    using X I(3) by (intro mapE_Inr) (simp add: Embedding_forward_def)
  from I(8) have dp: "DropoutLayers_forward2 (se_dropout self) False keep m e = Inr e" for e
    using DropoutLayers_forward2_eval by blast
  have len: "length (se_embed self ! nat c) = d" if "c \<in> set X" for c
    using X I(4) that by (metis nat_less_iff nat_int zless_nat_conj zero_less_nat_eq not_less int_nat_eq)
  show ?thesis
  proof (cases add)
    case True
    have "mapE (se_add (se_shared_embed self)) (map (\<lambda>c. se_embed self ! nat c) X)
        = Inr (map (\<lambda>r. map2 (+) r (se_shared_embed self)) (map (\<lambda>c. se_embed self ! nat c) X))"
      using I(6) True len by (intro mapE_Inr) (auto simp: se_add_def)
    then show ?thesis using True I(5) by (simp add: SharedEmbeddings_forward_def look dp comp_def)
  next
    case False
    have "mapE (se_overwrite (se_shared_embed self)) (map (\<lambda>c. se_embed self ! nat c) X)
        = Inr (map (\<lambda>r. se_shared_embed self @ drop (length (se_shared_embed self)) r) (map (\<lambda>c. se_embed self ! nat c) X))"
      using I(7) len by (intro mapE_Inr) (auto simp: se_overwrite_def)
    then show ?thesis using False I(5) by (simp add: SharedEmbeddings_forward_def look dp comp_def)
  qed
qed

text \<open>
  Claim C5. Partial-overwrite mode (\<^verbatim>\<open>add_shared_embed\<close> false) with
  \<^verbatim>\<open>frac_shared_embed\<close> one of 0.1, 0.25, 0.5: construction succeeds for a table with at
  least one row and a dropout probability in \<open>[0, 1]\<close>, the shared vector has width
  \<open>int(embed_dim * frac_shared_embed)\<close>, and in evaluation mode, for every batch of codes
  of the table, every output row has width \<open>embed_dim\<close>, begins with the shared vector and
  continues with the entries of the row that the embedding table holds for the code.
\<close>

theorem SharedEmbeddings_partial_overwrite:
  assumes fr: "fr \<in> {1/10, 1/4, 1/2}"
    and n: "0 < n_embed" and p: "0 \<le> p" "p \<le> 1"
    and X: "\<forall>c\<in>set X. 0 \<le> c \<and> c < int n_embed"
  shows "\<exists>self out. SharedEmbeddings_init n_embed embed_dim p full False fr w0 s0 = Inr self
     \<and> SharedEmbeddings_forward self False keep m X = Inr out
     \<and> length out = length X
     \<and> length (se_shared_embed self) = nat (py_int (real embed_dim * fr))
     \<and> (\<forall>i<length X. \<exists>row. Embedding_forward (se_embed self) (X ! i) = Inr row
           \<and> length (out ! i) = embed_dim
           \<and> take (nat (py_int (real embed_dim * fr))) (out ! i) = se_shared_embed self
           \<and> drop (nat (py_int (real embed_dim * fr))) (out ! i)
               = drop (nat (py_int (real embed_dim * fr))) row)"
proof -
  from fr have fr1: "fr < 1" "0 \<le> fr \<or> False" by auto
  from SharedEmbeddings_init_ok[OF fr1 n p] obtain self where
    init: "SharedEmbeddings_init n_embed embed_dim p full False fr w0 s0 = Inr self" by blast
  note I = SharedEmbeddings_init_Inr[OF init]
  let ?k = "nat (py_int (real embed_dim * fr))"
  let ?out = "map (\<lambda>c. se_shared_embed self @ drop (length (se_shared_embed self)) (se_embed self ! nat c)) X"
  have fw: "SharedEmbeddings_forward self False keep m X = Inr ?out"
    using SharedEmbeddings_forward_eval[OF init X] by simp
  have k: "length (se_shared_embed self) = ?k" using I(6) by simp
  have rows: "\<exists>row. Embedding_forward (se_embed self) (X ! i) = Inr row
           \<and> length (?out ! i) = embed_dim
           \<and> take ?k (?out ! i) = se_shared_embed self
           \<and> drop ?k (?out ! i) = drop ?k row" if "i < length X" for i
  proof -
    from that X have c: "0 \<le> X ! i" "X ! i < int n_embed" by auto
    then have "nat (X ! i) < n_embed" by linarith
    with I(4) have len: "length (se_embed self ! nat (X ! i)) = embed_dim" by blast
    have "Embedding_forward (se_embed self) (X ! i) = Inr (se_embed self ! nat (X ! i))"
      using c I(3) by (simp add: Embedding_forward_def)
    moreover have "length (?out ! i) = embed_dim" using that len I(7) by simp
    moreover have "take ?k (?out ! i) = se_shared_embed self" using that k by simp
    moreover have "drop ?k (?out ! i) = drop ?k (se_embed self ! nat (X ! i))" using that k by simp
    ultimately show ?thesis by blast
  qed
  show ?thesis
    apply (rule exI[of _ self], rule exI[of _ ?out])
    using init fw k rows by simp
qed

theorem SharedEmbeddings_partial_overwrite_witness:
  "(1/4::real) \<in> {1/10, 1/4, 1/2} \<and> (0::nat) < 3 \<and> (0::real) \<le> 0 \<and> (0::real) \<le> 1
   \<and> (0::int) \<le> 1 \<and> (1::int) < int 3 \<and> (0::int) \<le> 2 \<and> (2::int) < int 3
   \<and> (\<exists>self out. SharedEmbeddings_init 3 4 0 False False (1/4) (\<lambda>i j. 1) (\<lambda>j. 5) = Inr self
     \<and> SharedEmbeddings_forward self False (\<lambda>js. True) (\<lambda>c. 1) [1, 2] = Inr out
     \<and> length out = length [1, 2::int]
     \<and> length (se_shared_embed self) = nat (py_int (real 4 * (1/4)))
     \<and> (\<forall>i<length [1, 2::int]. \<exists>row. Embedding_forward (se_embed self) ([1, 2] ! i) = Inr row
           \<and> length (out ! i) = 4
           \<and> take (nat (py_int (real 4 * (1/4)))) (out ! i) = se_shared_embed self
           \<and> drop (nat (py_int (real 4 * (1/4)))) (out ! i)
               = drop (nat (py_int (real 4 * (1/4)))) row))"
proof -
  have h1: "(1/4::real) \<in> {1/10, 1/4, 1/2}" by simp
  have h2: "(0::nat) < 3" by simp
  have h3: "(0::real) \<le> 0" "(0::real) \<le> 1" by simp_all
  have h4: "\<forall>c\<in>set [1, 2::int]. 0 \<le> c \<and> c < int 3" by simp
  have a: "(0::int) \<le> 1" "(1::int) < int 3" "(0::int) \<le> 2" "(2::int) < int 3" by simp_all
  show ?thesis
    using SharedEmbeddings_partial_overwrite[OF h1 h2 h3 h4, of 4 False "\<lambda>i j. 1" "\<lambda>j. 5" "\<lambda>js. True" "\<lambda>c. 1"]
      h1 h2 h3 a by blast
qed

text \<open>
  Claim C6. In additive mode the shared vector has the full width \<open>embed_dim\<close> and, in
  evaluation mode, every output row is the row of the embedding table for the code plus
  the shared vector. The mode is the constructor argument \<^verbatim>\<open>add_shared_embed\<close>, stored in
  the instance: an instance in additive mode adds and overwrites nothing, an instance in
  overwrite mode overwrites and adds nothing.
\<close>

theorem SharedEmbeddings_modes:
  assumes fr: "fr < 1" "0 \<le> fr \<or> add"
    and n: "0 < n_embed" and p: "0 \<le> p" "p \<le> 1"
    and X: "\<forall>c\<in>set X. 0 \<le> c \<and> c < int n_embed"
  shows "\<exists>self out. SharedEmbeddings_init n_embed embed_dim p full add fr w0 s0 = Inr self
     \<and> se_add_shared_embed self = add
     \<and> SharedEmbeddings_forward self False keep m X = Inr out
     \<and> length out = length X
     \<and> (add \<longrightarrow> length (se_shared_embed self) = embed_dim)
     \<and> (\<forall>i<length X. \<exists>row. Embedding_forward (se_embed self) (X ! i) = Inr row
           \<and> length row = embed_dim
           \<and> out ! i = (if add then map2 (+) row (se_shared_embed self)
                        else se_shared_embed self @ drop (length (se_shared_embed self)) row))"
proof -
  from SharedEmbeddings_init_ok[OF fr n p] obtain self where
    init: "SharedEmbeddings_init n_embed embed_dim p full add fr w0 s0 = Inr self" by blast
  note I = SharedEmbeddings_init_Inr[OF init]
  let ?f = "\<lambda>c. if add then map2 (+) (se_embed self ! nat c) (se_shared_embed self)
                    else se_shared_embed self @ drop (length (se_shared_embed self)) (se_embed self ! nat c)"
  have fw: "SharedEmbeddings_forward self False keep m X = Inr (map ?f X)"
    using SharedEmbeddings_forward_eval[OF init X] by simp
  have rows: "\<exists>row. Embedding_forward (se_embed self) (X ! i) = Inr row
           \<and> length row = embed_dim
           \<and> map ?f X ! i = (if add then map2 (+) row (se_shared_embed self)
                        else se_shared_embed self @ drop (length (se_shared_embed self)) row)"
    if "i < length X" for i
  proof -
    from that X have c: "0 \<le> X ! i" "X ! i < int n_embed" by auto
    then have "nat (X ! i) < n_embed" by linarith
    with I(4) have len: "length (se_embed self ! nat (X ! i)) = embed_dim" by blast
    have "Embedding_forward (se_embed self) (X ! i) = Inr (se_embed self ! nat (X ! i))"
      using c I(3) by (simp add: Embedding_forward_def)
    with len that show ?thesis by simp
  qed
  show ?thesis
    apply (rule exI[of _ self], rule exI[of _ "map ?f X"])
    using init fw I(5,6) rows by simp
qed

theorem SharedEmbeddings_modes_witness:
  "(1/4::real) < 1 \<and> ((0::real) \<le> 1/4 \<or> True) \<and> (0::nat) < 3 \<and> (0::real) \<le> 0 \<and> (0::real) \<le> 1
   \<and> (0::int) \<le> 1 \<and> (1::int) < int 3 \<and> (0::int) \<le> 2 \<and> (2::int) < int 3
   \<and> (\<exists>self out. SharedEmbeddings_init 3 4 0 False True (1/4) (\<lambda>i j. 1) (\<lambda>j. 5) = Inr self
     \<and> se_add_shared_embed self = True
     \<and> SharedEmbeddings_forward self False (\<lambda>js. True) (\<lambda>c. 1) [1, 2] = Inr out
     \<and> length out = length [1, 2::int]
     \<and> (True \<longrightarrow> length (se_shared_embed self) = 4)
     \<and> (\<forall>i<length [1, 2::int]. \<exists>row. Embedding_forward (se_embed self) ([1, 2] ! i) = Inr row
           \<and> length row = 4
           \<and> out ! i = (if True then map2 (+) row (se_shared_embed self)
                        else se_shared_embed self @ drop (length (se_shared_embed self)) row)))"
proof -
  have h1: "(1/4::real) < 1" "(0::real) \<le> 1/4 \<or> True" by simp_all
  have h2: "(0::nat) < 3" by simp
  have h3: "(0::real) \<le> 0" "(0::real) \<le> 1" by simp_all
  have h4: "\<forall>c\<in>set [1, 2::int]. 0 \<le> c \<and> c < int 3" by simp
  have a: "(0::int) \<le> 1" "(1::int) < int 3" "(0::int) \<le> 2" "(2::int) < int 3" by simp_all
  show ?thesis
    using SharedEmbeddings_modes[OF h1 h2 h3 h4, of 4 False "\<lambda>i j. 1" "\<lambda>j. 5" "\<lambda>js. True" "\<lambda>c. 1"]
      h1 h2 h3 a by blast
qed

lemma bcast_size_same [simp]: "bcast_size a a = Inr a" by (simp add: bcast_size_def)

lemma bget_nth: "i < length xs \<Longrightarrow> bget xs i = xs ! i"
  by (auto simp: bget_def)

lemma ce_scale_Inr:
  assumes "\<forall>row\<in>set X. length row = length W"
  shows "ce_scale W X = Inr (map (\<lambda>row. map (\<lambda>c. map (\<lambda>w. w * row ! c) (W ! c)) [0..<length W]) X)"
  unfolding ce_scale_def using assms
  by (intro mapE_Inr) (simp add: bget_nth)

lemma add_bias_Inr:
  assumes "\<forall>m\<in>set x. length m = length B"
  shows "add_bias B x = Inr (map (\<lambda>m. map (\<lambda>c. map2 (+) (m ! c) (B ! c)) [0..<length B]) x)"
  unfolding add_bias_def using assms
  by (intro mapE_Inr) (simp add: bget_nth)

lemma ContEmbeddings_init_Inr:
  assumes "ContEmbeddings_init gaf C D p use_bias activation w0 b0 = Inr self"
  shows "ce_weight self = tabulate2 C D w0"
    "ce_bias self = (if use_bias then Some (tabulate2 C D b0) else None)"
    "ce_embed_dropout self = p"
    "case activation of
       None \<Rightarrow> ce_act_fn self = None
     | Some a \<Rightarrow> if a = [] then ce_act_fn self = None
                 else \<exists>f. gaf a = Inr f \<and> ce_act_fn self = Some f"
  using assms
  by (auto simp: ContEmbeddings_init_def bindE_eq_Inr split: option.splits if_splits)

lemma ce_scale_tab:
  assumes "\<forall>row\<in>set X. length row = C"
  shows "ce_scale (tabulate2 C D w0) X =
     Inr (map (\<lambda>n. map (\<lambda>c. map (\<lambda>d. w0 c d * X ! n ! c) [0..<D]) [0..<C]) [0..<length X])"
proof -
  have "ce_scale (tabulate2 C D w0) X =
      Inr (map (\<lambda>row. map (\<lambda>c. map (\<lambda>w. w * row ! c) (tabulate2 C D w0 ! c))
                 [0..<length (tabulate2 C D w0)]) X)"
    using assms by (intro ce_scale_Inr) simp
  also have "map (\<lambda>row. map (\<lambda>c. map (\<lambda>w. w * row ! c) (tabulate2 C D w0 ! c))
                 [0..<length (tabulate2 C D w0)]) X
      = map (\<lambda>n. map (\<lambda>c. map (\<lambda>d. w0 c d * X ! n ! c) [0..<D]) [0..<C]) [0..<length X]"
    by (auto simp: tabulate1_def intro!: nth_equalityI)
  finally show ?thesis .
qed

lemma add_bias_tab:
  "add_bias (tabulate2 C D b0)
       (map (\<lambda>n. map (\<lambda>c. map (\<lambda>d. g n c d) [0..<D]) [0..<C]) [0..<N]) =
     Inr (map (\<lambda>n. map (\<lambda>c. map (\<lambda>d. g n c d + b0 c d) [0..<D]) [0..<C]) [0..<N])"
proof -
  let ?x = "map (\<lambda>n. map (\<lambda>c. map (\<lambda>d. g n c d) [0..<D]) [0..<C]) [0..<N]"
  let ?B = "tabulate2 C D b0"
  have "add_bias ?B ?x = Inr (map (\<lambda>m. map (\<lambda>c. map2 (+) (m ! c) (?B ! c)) [0..<length ?B]) ?x)"
    by (intro add_bias_Inr) simp
  also have "map (\<lambda>m. map (\<lambda>c. map2 (+) (m ! c) (?B ! c)) [0..<length ?B]) ?x
      = map (\<lambda>n. map (\<lambda>c. map (\<lambda>d. g n c d + b0 c d) [0..<D]) [0..<C]) [0..<N]"
    by (auto simp: tabulate1_def intro!: nth_equalityI)
  finally show ?thesis .
qed

lemma map3_cong:
  assumes "\<And>n c d. n < N \<Longrightarrow> c < C \<Longrightarrow> d < D \<Longrightarrow> f n c d = g n c d"
  shows "map (\<lambda>n. map (\<lambda>c. map (\<lambda>d. f n c d) [0..<D]) [0..<C]) [0..<N]
       = map (\<lambda>n. map (\<lambda>c. map (\<lambda>d. (g n c d :: real)) [0..<D]) [0..<C]) [0..<N]"
  using assms by simp

lemma ContEmbeddings_forward_eval:
  assumes init: "ContEmbeddings_init gaf C D p use_bias activation w0 b0 = Inr self"
    and p: "0 \<le> p" "p \<le> 1"
    and X: "\<forall>row\<in>set X. length row = C"
  shows "ContEmbeddings_forward self training keep X =
     bindE (case ce_act_fn self of
              None \<Rightarrow> Inr (map (\<lambda>n. map (\<lambda>c. map (\<lambda>d. ce_formula self X n c d) [0..<D])
                                  [0..<C]) [0..<length X])
            | Some f \<Rightarrow> f (map (\<lambda>n. map (\<lambda>c. map (\<lambda>d. ce_formula self X n c d) [0..<D])
                                  [0..<C]) [0..<length X]))
       (\<lambda>y. Inr (if training then dropout3 p keep y else y))"
proof -
  note I = ContEmbeddings_init_Inr[OF init]
  note s1 = ce_scale_tab[OF X, of D w0]
  have dr: "F_dropout3 p training keep y = Inr (if training then dropout3 p keep y else y)" for y
    using p by (simp add: F_dropout3_def)
  show ?thesis
  proof (cases use_bias)
    case False
    then have b: "ce_bias self = None" using I(2) by simp
    have F: "map (\<lambda>n. map (\<lambda>c. map (\<lambda>d. ce_formula self X n c d) [0..<D]) [0..<C]) [0..<length X]
        = map (\<lambda>n. map (\<lambda>c. map (\<lambda>d. w0 c d * X ! n ! c) [0..<D]) [0..<C]) [0..<length X]"
      by (rule map3_cong) (simp add: ce_formula_def b I(1))
    show ?thesis
      by (cases "ce_act_fn self") (simp_all add: ContEmbeddings_forward_def I(1,3) s1 b F dr)
  next
    case True
    then have b: "ce_bias self = Some (tabulate2 C D b0)" using I(2) by simp
    have F: "map (\<lambda>n. map (\<lambda>c. map (\<lambda>d. ce_formula self X n c d) [0..<D]) [0..<C]) [0..<length X]
        = map (\<lambda>n. map (\<lambda>c. map (\<lambda>d. w0 c d * X ! n ! c + b0 c d) [0..<D]) [0..<C])
            [0..<length X]"
      by (rule map3_cong) (simp add: ce_formula_def b I(1))
    show ?thesis
      by (cases "ce_act_fn self")
         (simp_all add: ContEmbeddings_forward_def I(1,3) s1 add_bias_tab b F dr)
  qed
qed

text \<open>
  Claim C8, as amended. For a batch of shape \<open>(N, C)\<close> and a dropout probability in
  \<open>[0, 1]\<close>, the continuous embedder computes the tensor \<open>pre\<close> of shape \<open>(N, C, D)\<close> whose
  entry \<open>[n, c, d]\<close> is \<open>weight[c, d] * X[n, c]\<close>, plus \<open>bias[c, d]\<close> when the bias is
  enabled (the bias exists exactly when \<^verbatim>\<open>use_bias\<close> is true). The activation module is
  the one that \<^verbatim>\<open>get_activation_fn\<close> returns for the configured name, and none for no
  name. In evaluation mode the result is \<open>pre\<close> without an activation and the module
  applied to \<open>pre\<close> with one: for an entrywise activation \<open>f\<close> the tensor of shape
  \<open>(N, C, D)\<close> with \<open>f\<close> applied to every entry of \<open>pre\<close>. In training mode the result is
  the dropout of the evaluation-mode result.
\<close>

theorem ContEmbeddings_forward_formula:
  assumes init: "ContEmbeddings_init get_activation_fn C D p use_bias activation w0 b0 = Inr self"
    and p: "0 \<le> p" "p \<le> 1"
    and X: "\<forall>row\<in>set X. length row = C"
  shows "(ce_bias self = None \<longleftrightarrow> \<not> use_bias)
     \<and> (case activation of
           None \<Rightarrow> ce_act_fn self = None
         | Some a \<Rightarrow> if a = [] then ce_act_fn self = None
                     else \<exists>f. get_activation_fn a = Inr f \<and> ce_act_fn self = Some f)
     \<and> (\<exists>pre. length pre = length X
          \<and> (\<forall>n<length X. length (pre ! n) = C
               \<and> (\<forall>c<C. length (pre ! n ! c) = D
                    \<and> (\<forall>d<D. pre ! n ! c ! d =
                          (case ce_bias self of
                             None \<Rightarrow> ce_weight self ! c ! d * X ! n ! c
                           | Some B \<Rightarrow> ce_weight self ! c ! d * X ! n ! c + B ! c ! d))))
          \<and> ContEmbeddings_forward self False keep X
              = (case ce_act_fn self of None \<Rightarrow> Inr pre | Some f \<Rightarrow> f pre)
          \<and> ContEmbeddings_forward self True keep X
              = bindE (ContEmbeddings_forward self False keep X)
                  (\<lambda>out. Inr (dropout3 p keep out))
          \<and> (\<forall>f. ce_act_fn self = Some (entrywise f) \<longrightarrow>
                ContEmbeddings_forward self False keep X = Inr (map (map (map f)) pre)))"
proof -
  let ?pre = "map (\<lambda>n. map (\<lambda>c. map (\<lambda>d. ce_formula self X n c d) [0..<D]) [0..<C]) [0..<length X]"
  let ?act = "case ce_act_fn self of None \<Rightarrow> Inr ?pre | Some f \<Rightarrow> f ?pre"
  have e: "ContEmbeddings_forward self False keep X = ?act"
    using ContEmbeddings_forward_eval[OF init p X, of False keep]
    by (cases ?act) simp_all
  have t: "ContEmbeddings_forward self True keep X
      = bindE (ContEmbeddings_forward self False keep X) (\<lambda>out. Inr (dropout3 p keep out))"
    using ContEmbeddings_forward_eval[OF init p X, of True keep] by (simp add: e)
  have b: "ce_bias self = None \<longleftrightarrow> \<not> use_bias"
    using ContEmbeddings_init_Inr(2)[OF init] by simp
  note a = ContEmbeddings_init_Inr(4)[OF init]
  have ew: "\<forall>f. ce_act_fn self = Some (entrywise f) \<longrightarrow>
                ContEmbeddings_forward self False keep X = Inr (map (map (map f)) ?pre)"
    by (simp add: e entrywise_def)
  have sh: "length ?pre = length X
          \<and> (\<forall>n<length X. length (?pre ! n) = C
               \<and> (\<forall>c<C. length (?pre ! n ! c) = D
                    \<and> (\<forall>d<D. ?pre ! n ! c ! d =
                          (case ce_bias self of
                             None \<Rightarrow> ce_weight self ! c ! d * X ! n ! c
                           | Some B \<Rightarrow> ce_weight self ! c ! d * X ! n ! c + B ! c ! d))))"
    by (cases "ce_bias self") (auto simp: ce_formula_def)
  have "\<exists>pre. length pre = length X
          \<and> (\<forall>n<length X. length (pre ! n) = C
               \<and> (\<forall>c<C. length (pre ! n ! c) = D
                    \<and> (\<forall>d<D. pre ! n ! c ! d =
                          (case ce_bias self of
                             None \<Rightarrow> ce_weight self ! c ! d * X ! n ! c
                           | Some B \<Rightarrow> ce_weight self ! c ! d * X ! n ! c + B ! c ! d))))
          \<and> ContEmbeddings_forward self False keep X
              = (case ce_act_fn self of None \<Rightarrow> Inr pre | Some f \<Rightarrow> f pre)
          \<and> ContEmbeddings_forward self True keep X
              = bindE (ContEmbeddings_forward self False keep X)
                  (\<lambda>out. Inr (dropout3 p keep out))
          \<and> (\<forall>f. ce_act_fn self = Some (entrywise f) \<longrightarrow>
                ContEmbeddings_forward self False keep X = Inr (map (map (map f)) pre))"
    apply (rule exI[of _ ?pre])
    using sh e t ew by blast
  with a b show ?thesis by blast
qed

theorem ContEmbeddings_forward_formula_witness:
  "ContEmbeddings_init get_activation_relu_reglu 1 2 0 True (Some ''relu'')
       (const_draws 3) (const_draws 1)
     = Inr \<lparr> ce_n_cont_cols = 1, ce_embed_dim = 2, ce_embed_dropout = 0, ce_use_bias = True,
             ce_activation = Some ''relu'', ce_weight = tabulate2 1 2 (const_draws 3),
             ce_bias = Some (tabulate2 1 2 (const_draws 1)),
             ce_act_fn = Some (entrywise relu) \<rparr>
   \<and> (0::real) \<le> 0 \<and> (0::real) \<le> 1 \<and> length [- 2::real] = 1
   \<and> ContEmbeddings_forward
        \<lparr> ce_n_cont_cols = 1, ce_embed_dim = 2, ce_embed_dropout = 0, ce_use_bias = True,
          ce_activation = Some ''relu'', ce_weight = tabulate2 1 2 (const_draws 3),
          ce_bias = Some (tabulate2 1 2 (const_draws 1)),
          ce_act_fn = Some (entrywise relu) \<rparr>
        False keep_all [[- 2]] = Inr [[[0, 0]]]"
proof -
  let ?self = "\<lparr> ce_n_cont_cols = 1, ce_embed_dim = 2, ce_embed_dropout = 0, ce_use_bias = True,
             ce_activation = Some ''relu'', ce_weight = tabulate2 1 2 (const_draws 3),
             ce_bias = Some (tabulate2 1 2 (const_draws 1)),
             ce_act_fn = Some (entrywise relu) \<rparr>"
  have h1: "ContEmbeddings_init get_activation_relu_reglu 1 2 0 True (Some ''relu'')
       (const_draws 3) (const_draws 1) = Inr ?self"
    by (simp add: ContEmbeddings_init_def get_activation_relu_reglu_def)
  have h2: "(0::real) \<le> 0" "(0::real) \<le> 1" by simp_all
  have h3: "\<forall>row\<in>set [[- 2::real]]. length row = 1" by simp
  from ContEmbeddings_forward_formula[OF h1 h2 h3, of keep_all]
  obtain pre where pre: "length pre = length [[- 2::real]]"
    "\<forall>n<length [[- 2::real]]. length (pre ! n) = 1
          \<and> (\<forall>c<1. length (pre ! n ! c) = 2
               \<and> (\<forall>d<2. pre ! n ! c ! d =
                      (case ce_bias ?self of
                         None \<Rightarrow> ce_weight ?self ! c ! d * [[- 2]] ! n ! c
                       | Some B \<Rightarrow> ce_weight ?self ! c ! d * [[- 2]] ! n ! c + B ! c ! d)))"
    "\<forall>f. ce_act_fn ?self = Some (entrywise f) \<longrightarrow>
        ContEmbeddings_forward ?self False keep_all [[- 2]] = Inr (map (map (map f)) pre)"
    by blast
  from pre(2) have e: "length (pre ! 0) = 1" "length (pre ! 0 ! 0) = 2"
    "pre ! 0 ! 0 ! 0 = - 5" "pre ! 0 ! 0 ! 1 = - 5"
    by (simp_all add: tabulate2_def tabulate1_def const_draws_def upt_conv_Cons)
  have "pre ! 0 ! 0 = [- 5, - 5]" using e(2,3,4)
    by (intro nth_equalityI) (auto simp: less_Suc_eq numeral_2_eq_2)
  then have "pre ! 0 = [[- 5, - 5]]" using e(1) by (intro nth_equalityI) auto
  then have p5: "pre = [[[- 5, - 5]]]" using pre(1) by (intro nth_equalityI) auto
  from pre(3) have "ContEmbeddings_forward ?self False keep_all [[- 2]]
      = Inr (map (map (map relu)) pre)" by simp
  then have "ContEmbeddings_forward ?self False keep_all [[- 2]] = Inr [[[0, 0]]]"
    by (simp add: p5 relu_def)
  with h1 h2 show ?thesis by simp
qed

text \<open>
  Claim C8 as stated promises the shape \<open>(N, C, D)\<close> for every optional activation. With
  the gated unit \<^verbatim>\<open>reglu\<close> and \<open>D = 2\<close> the result has one entry for each column: on the
  batch \<open>[[2]]\<close> with weights 3 and no bias, \<open>6 * relu 6 = 36\<close>.
\<close>

theorem ContEmbeddings_gated_activation_halves_width:
  "ContEmbeddings_init get_activation_relu_reglu 1 2 0 False (Some ''reglu'')
       (const_draws 3) (const_draws 1)
     = Inr \<lparr> ce_n_cont_cols = 1, ce_embed_dim = 2, ce_embed_dropout = 0, ce_use_bias = False,
             ce_activation = Some ''reglu'', ce_weight = tabulate2 1 2 (const_draws 3),
             ce_bias = None, ce_act_fn = Some (gated_unit relu) \<rparr>
   \<and> ContEmbeddings_forward
        \<lparr> ce_n_cont_cols = 1, ce_embed_dim = 2, ce_embed_dropout = 0, ce_use_bias = False,
          ce_activation = Some ''reglu'', ce_weight = tabulate2 1 2 (const_draws 3),
          ce_bias = None, ce_act_fn = Some (gated_unit relu) \<rparr>
        False keep_all [[2]] = Inr [[[36]]]"
  by (simp add: ContEmbeddings_init_def get_activation_relu_reglu_def ContEmbeddings_forward_def
      ce_scale_def bcast_size_def bget_def tabulate2_def tabulate1_def const_draws_def
      gated_unit_def relu_def F_dropout3_def Let_def upt_conv_Cons)


lemma mapE_ex:
  "(\<And>x. x \<in> set xs \<Longrightarrow> \<exists>y. f x = Inr y \<and> P x y) \<Longrightarrow> \<exists>ys. mapE f xs = Inr ys \<and> list_all2 P xs ys"
proof (induction xs)
  case Nil then show ?case by simp
next
  case (Cons x xs)
  then obtain y where y: "f x = Inr y" "P x y" by auto
  from Cons obtain ys where ys: "mapE f xs = Inr ys" "list_all2 P xs ys" by auto
  show ?case using y ys by simp
qed

lemma mapE_Inl:
  "mapE f xs = Inl e \<Longrightarrow> \<exists>x\<in>set xs. f x = Inl e"
  by (induction xs) (auto simp: bindE_def split: sum.splits)

lemma dot_emb_layer [simp]: "CHR ''.'' \<in> set (emb_layer col) \<longleftrightarrow> CHR ''.'' \<in> set col"
  by (simp add: emb_layer_def)

lemma emb_layer_inj [simp]: "emb_layer a = emb_layer b \<longleftrightarrow> a = b"
  by (simp add: emb_layer_def)

lemma dce_items:
  "mapE (\<lambda>(col, val, edim). bindE (Embedding_init (val + 1) edim (w0 col))
                      (\<lambda>W. Inr (emb_layer col, W))) ei
   = Inr (map (\<lambda>e. (emb_layer (fst e), dce_table w0 e)) ei)"
  by (intro mapE_Inr) (auto simp: Embedding_init_def dce_table_def)

lemma DiffSizeCatEmbeddings_init_Inr:
  assumes "DiffSizeCatEmbeddings_init column_idx ei p w0 = Inr self"
  shows "dce_column_idx self = column_idx" "dce_embed_input self = ei"
    "dce_embed_layers self = map_of (rev (map (\<lambda>e. (emb_layer (fst e), dce_table w0 e)) ei))"
    "dce_embedding_dropout self = p" "0 \<le> p" "p \<le> 1"
    "dce_emb_out_dim self = sum_list (map (\<lambda>e. snd (snd e)) ei)"
  using assms unfolding DiffSizeCatEmbeddings_init_def dce_items
  by (auto simp: ModuleDict_init_def Dropout_init_def split: if_splits)

lemma DiffSizeCatEmbeddings_init_ok:
  assumes "0 \<le> p" "p \<le> 1" "\<forall>col\<in>set (map fst ei). CHR ''.'' \<notin> set col"
  shows "\<exists>self. DiffSizeCatEmbeddings_init column_idx ei p w0 = Inr self"
  using assms unfolding DiffSizeCatEmbeddings_init_def dce_items
  by (auto simp: ModuleDict_init_def Dropout_init_def)

lemma dce_layers_lookup:
  assumes "distinct (map fst ei)" "e \<in> set ei"
  shows "map_of (rev (map (\<lambda>e. (emb_layer (fst e), dce_table w0 e)) ei)) (emb_layer (fst e))
       = Some (dce_table w0 e)"
proof -
  let ?items = "map (\<lambda>e. (emb_layer (fst e), dce_table w0 e)) ei"
  have "map fst ?items = map emb_layer (map fst ei)" by simp
  then have "distinct (map fst ?items)" using assms(1)
    by (simp only: distinct_map) (auto simp: inj_on_def)
  then have "distinct (map fst (rev ?items))" by (simp add: rev_map[symmetric] del: map_map)
  moreover have "(emb_layer (fst e), dce_table w0 e) \<in> set (rev ?items)" using assms(2) by auto
  ultimately show ?thesis by (rule map_of_is_SomeI)
qed

lemma dce_table_shape:
  "length (dce_table w0 (col, val, edim)) = val + 1"
  "r \<in> set (dce_table w0 (col, val, edim)) \<Longrightarrow> length r = edim"
  by (auto simp: dce_table_def tabulate2_def)

lemma dce_column:
  assumes init: "DiffSizeCatEmbeddings_init column_idx ei p w0 = Inr self"
    and d: "distinct (map fst ei)"
    and codes: "codes_in_range column_idx ei X"
    and e: "(col, val, edim) \<in> set ei"
  shows "\<exists>t. bindE (getitem (dce_embed_layers self) (emb_layer col)) (\<lambda>W.
              bindE (getitem (dce_column_idx self) col) (\<lambda>i.
              bindE (select_col X i) (\<lambda>xs.
                mapE (\<lambda>x. Embedding_forward W (long x)) xs))) = Inr t
           \<and> length t = length X \<and> (\<forall>r\<in>set t. length r = edim)"
proof -
  note I = DiffSizeCatEmbeddings_init_Inr[OF init]
  let ?W = "dce_table w0 (col, val, edim)"
  have W: "getitem (dce_embed_layers self) (emb_layer col) = Inr ?W"
    using dce_layers_lookup[OF d e, of w0] by (simp add: I(3) getitem_def)
  from codes e obtain i where i: "column_idx col = Some i"
    and rows: "\<forall>row\<in>set X. \<exists>j. index_dim (length row) i = Inr j
            \<and> 0 \<le> long (row ! j) \<and> long (row ! j) \<le> int val"
    unfolding codes_in_range_def by fastforce
  have ci: "getitem (dce_column_idx self) col = Inr i" by (simp add: I(1) getitem_def i)
  have "\<exists>xs. select_col X i = Inr xs \<and> list_all2 (\<lambda>row x. 0 \<le> long x \<and> long x \<le> int val) X xs"
    unfolding select_col_def using rows by (intro mapE_ex) fastforce
  then obtain xs where xs: "select_col X i = Inr xs"
    and r: "list_all2 (\<lambda>row x. 0 \<le> long x \<and> long x \<le> int val) X xs" by blast
  have "\<exists>t. mapE (\<lambda>x. Embedding_forward ?W (long x)) xs = Inr t
          \<and> list_all2 (\<lambda>x r. length r = edim) xs t"
  proof (intro mapE_ex)
    fix x assume "x \<in> set xs"
    with r have c: "0 \<le> long x" "long x \<le> int val"
      by (auto simp: list_all2_conv_all_nth in_set_conv_nth)
    then have "nat (long x) < length ?W" by (simp add: dce_table_shape)
    then have "?W ! nat (long x) \<in> set ?W" by simp
    then have "length (?W ! nat (long x)) = edim" by (rule dce_table_shape(2))
    then show "\<exists>y. Embedding_forward ?W (long x) = Inr y \<and> length y = edim"
      using c by (simp add: Embedding_forward_def dce_table_shape)
  qed
  then obtain t where t: "mapE (\<lambda>x. Embedding_forward ?W (long x)) xs = Inr t"
    and tl: "list_all2 (\<lambda>x r. length r = edim) xs t" by blast
  have "length t = length X"
    using list_all2_lengthD[OF r] list_all2_lengthD[OF tl] by simp
  moreover have "\<forall>r\<in>set t. length r = edim"
    using tl by (auto simp: list_all2_conv_all_nth in_set_conv_nth)
  ultimately show ?thesis by (simp add: W ci xs t)
qed

lemma length_dropout1 [simp]: "length (dropout1 p keep x) = length x"
  by (simp add: dropout1_def)

lemma length_dropout2 [simp]: "length (dropout2 p keep x) = length x"
  by (simp add: dropout2_def)

lemma dropout2_rows: "(\<forall>r\<in>set x. length r = w) \<Longrightarrow> \<forall>r\<in>set (dropout2 p keep x). length r = w"
  by (auto simp: dropout2_def in_set_enumerate_eq)

lemma cat1_width:
  assumes "list_all2 (\<lambda>e t. length t = N \<and> (\<forall>r\<in>set t. length r = snd (snd e))) ei ts" "n < N"
  shows "length (concat (map (\<lambda>t. t ! n) ts)) = sum_list (map (\<lambda>e. snd (snd e)) ei)"
  using assms by (induction rule: list_all2_induct) (auto simp: length_concat)

lemma dce_columns:
  assumes init: "DiffSizeCatEmbeddings_init column_idx ei p w0 = Inr self"
    and d: "distinct (map fst ei)"
    and codes: "codes_in_range column_idx ei X"
  shows "\<exists>embed. mapE (\<lambda>(col, val, edim).
                    bindE (getitem (dce_embed_layers self) (emb_layer col)) (\<lambda>W.
                    bindE (getitem (dce_column_idx self) col) (\<lambda>i.
                    bindE (select_col X i) (\<lambda>xs.
                      mapE (\<lambda>x. Embedding_forward W (long x)) xs)))) ei = Inr embed
     \<and> list_all2 (\<lambda>e t. length t = length X \<and> (\<forall>r\<in>set t. length r = snd (snd e))) ei embed"
proof (intro mapE_ex)
  fix x assume x: "x \<in> set ei"
  obtain col val edim where e: "x = (col, val, edim)" by (cases x) auto
  from dce_column[OF init d codes x[unfolded e]]
  show "\<exists>y. (case x of (col, val, edim) \<Rightarrow>
                    bindE (getitem (dce_embed_layers self) (emb_layer col)) (\<lambda>W.
                    bindE (getitem (dce_column_idx self) col) (\<lambda>i.
                    bindE (select_col X i) (\<lambda>xs.
                      mapE (\<lambda>x. Embedding_forward W (long x)) xs)))) = Inr y
        \<and> length y = length X \<and> (\<forall>r\<in>set y. length r = snd (snd x))"
    by (simp add: e)
qed

lemma DiffSizeCatEmbeddings_forward_shape:
  assumes init: "DiffSizeCatEmbeddings_init column_idx ei p w0 = Inr self"
    and d: "distinct (map fst ei)"
    and codes: "codes_in_range column_idx ei X"
  shows "ei = [] \<Longrightarrow> DiffSizeCatEmbeddings_forward self training keep X = Inl ValueError"
    and "ei \<noteq> [] \<Longrightarrow> \<exists>out. DiffSizeCatEmbeddings_forward self training keep X = Inr out
           \<and> length out = length X \<and> (\<forall>r\<in>set out. length r = dce_emb_out_dim self)"
proof -
  note I = DiffSizeCatEmbeddings_init_Inr[OF init]
  from dce_columns[OF init d codes] obtain embed where
    m: "mapE (\<lambda>(col, val, edim).
                    bindE (getitem (dce_embed_layers self) (emb_layer col)) (\<lambda>W.
                    bindE (getitem (dce_column_idx self) col) (\<lambda>i.
                    bindE (select_col X i) (\<lambda>xs.
                      mapE (\<lambda>x. Embedding_forward W (long x)) xs)))) ei = Inr embed"
    and l: "list_all2 (\<lambda>e t. length t = length X \<and> (\<forall>r\<in>set t. length r = snd (snd e))) ei embed"
    by blast
  show "DiffSizeCatEmbeddings_forward self training keep X = Inl ValueError" if "ei = []"
    using that m by (simp add: DiffSizeCatEmbeddings_forward_def I(2) torch_cat1_def)
  show "\<exists>out. DiffSizeCatEmbeddings_forward self training keep X = Inr out
           \<and> length out = length X \<and> (\<forall>r\<in>set out. length r = dce_emb_out_dim self)" if "ei \<noteq> []"
  proof -
    let ?x = "map (\<lambda>n. concat (map (\<lambda>t. t ! n) embed)) [0..<length X]"
    from that list_all2_lengthD[OF l] have ne: "embed \<noteq> []" by auto
    have w: "\<forall>r\<in>set ?x. length r = dce_emb_out_dim self"
      using cat1_width[OF l] by (auto simp: I(7))
    have f: "DiffSizeCatEmbeddings_forward self training keep X
        = Inr (if training then dropout2 p keep ?x else ?x)"
      using ne I(5,6) by (simp add: DiffSizeCatEmbeddings_forward_def I(2,4) m torch_cat1_def F_dropout2_def)
    have "length (if training then dropout2 p keep ?x else ?x) = length X" by simp
    moreover have "\<forall>r\<in>set (if training then dropout2 p keep ?x else ?x). length r = dce_emb_out_dim self"
      using w dropout2_rows[OF w, of p keep] by (cases training) simp_all
    ultimately show ?thesis using f by blast
  qed
qed

text \<open>
  Claim C10. The variable-width embedder builds, for every entry \<open>(col, val, dim)\<close> of a
  specification that names every column once, a table with \<open>val + 1\<close> rows of width
  \<open>dim\<close>. When every code of the batch lies in \<open>[0, val]\<close> of its column, the forward pass
  does not fail with an index error, in training and in evaluation mode; with at least
  one column it returns a tensor with one row for every row of the batch.
\<close>

theorem DiffSizeCatEmbeddings_lookups_in_bounds:
  assumes p: "0 \<le> p" "p \<le> 1"
    and names: "\<forall>col\<in>set (map fst embed_input). CHR ''.'' \<notin> set col"
    and d: "distinct (map fst embed_input)"
    and codes: "codes_in_range column_idx embed_input X"
  shows "\<exists>self. DiffSizeCatEmbeddings_init column_idx embed_input p w0 = Inr self
     \<and> (\<forall>(col, val, edim)\<in>set embed_input.
           \<exists>W. dce_embed_layers self (emb_layer col) = Some W \<and> length W = val + 1
               \<and> (\<forall>r\<in>set W. length r = edim))
     \<and> DiffSizeCatEmbeddings_forward self training keep X \<noteq> Inl IndexError
     \<and> (embed_input \<noteq> [] \<longrightarrow>
           (\<exists>out. DiffSizeCatEmbeddings_forward self training keep X = Inr out
                  \<and> length out = length X))"
proof -
  from DiffSizeCatEmbeddings_init_ok[OF p names] obtain self where
    init: "DiffSizeCatEmbeddings_init column_idx embed_input p w0 = Inr self" by blast
  note I = DiffSizeCatEmbeddings_init_Inr[OF init]
  have tabs: "\<forall>(col, val, edim)\<in>set embed_input.
           \<exists>W. dce_embed_layers self (emb_layer col) = Some W \<and> length W = val + 1
               \<and> (\<forall>r\<in>set W. length r = edim)"
  proof (clarify)
    fix col val edim assume e: "(col, val, edim) \<in> set embed_input"
    from dce_layers_lookup[OF d e, of w0]
    show "\<exists>W. dce_embed_layers self (emb_layer col) = Some W \<and> length W = val + 1
               \<and> (\<forall>r\<in>set W. length r = edim)"
      by (auto simp: I(3) dce_table_shape)
  qed
  note F = DiffSizeCatEmbeddings_forward_shape[OF init d codes, of training keep]
  have "DiffSizeCatEmbeddings_forward self training keep X \<noteq> Inl IndexError"
    using F by (cases "embed_input = []") auto
  then show ?thesis using init tabs F(2) by blast
qed

theorem DiffSizeCatEmbeddings_lookups_in_bounds_witness:
  "(0::real) \<le> 0 \<and> (0::real) \<le> 1
   \<and> CHR ''.'' \<notin> set ''a''
   \<and> distinct (map fst [(''a'', 3::nat, 2::nat)])
   \<and> codes_in_range [''a'' \<mapsto> 0] [(''a'', 3, 2)] [[3]]
   \<and> (\<exists>self. DiffSizeCatEmbeddings_init [''a'' \<mapsto> 0] [(''a'', 3, 2)] 0 (\<lambda>c i j. 1) = Inr self
     \<and> (\<forall>(col, val, edim)\<in>set [(''a'', 3, 2)].
           \<exists>W. dce_embed_layers self (emb_layer col) = Some W \<and> length W = val + 1
               \<and> (\<forall>r\<in>set W. length r = edim))
     \<and> DiffSizeCatEmbeddings_forward self True (\<lambda>js. True) [[3]] \<noteq> Inl IndexError
     \<and> ([(''a'', 3::nat, 2::nat)] \<noteq> [] \<longrightarrow>
           (\<exists>out. DiffSizeCatEmbeddings_forward self True (\<lambda>js. True) [[3]] = Inr out
                  \<and> length out = length [[3::real]])))"
proof -
  have h1: "(0::real) \<le> 0" "(0::real) \<le> 1" by simp_all
  have h2: "\<forall>col\<in>set (map fst [(''a'', 3::nat, 2::nat)]). CHR ''.'' \<notin> set col" by simp
  have h3: "distinct (map fst [(''a'', 3::nat, 2::nat)])" by simp
  have h4: "codes_in_range [''a'' \<mapsto> 0] [(''a'', 3, 2)] [[3]]"
    by (simp add: codes_in_range_def index_dim_def long_def)
  have a: "CHR ''.'' \<notin> set ''a''" by simp
  show ?thesis
    using DiffSizeCatEmbeddings_lookups_in_bounds[OF h1 h2 h3 h4, of "\<lambda>c i j. 1" True "\<lambda>js. True"]
      h1 a h3 h4 by blast
qed

lemma shape3_tab: "shape3 N C D (map (\<lambda>n. map (\<lambda>c. map (\<lambda>d. f n c d) [0..<D]) [0..<C]) [0..<N])"
  by (auto simp: shape3_def)

lemma shape3_dropout3:
  assumes "shape3 N C D x"
  shows "shape3 N C D (dropout3 p keep x)"
proof -
  have "length m' = C \<and> (\<forall>v\<in>set m'. length v = D)" if "m' \<in> set (dropout3 p keep x)" for m'
  proof -
    from that obtain i m where m: "m \<in> set x" "m' = dropout2 p (\<lambda>js. keep (i # js)) m"
      by (auto simp: dropout3_def in_set_enumerate_eq) (metis nth_mem)
    with assms have "length m = C" "\<forall>v\<in>set m. length v = D" by (auto simp: shape3_def)
    then show ?thesis using dropout2_rows[of m D p] m(2) by simp
  qed
  moreover have "length (dropout3 p keep x) = N" using assms by (simp add: shape3_def dropout3_def)
  ultimately show ?thesis by (simp add: shape3_def)
qed

lemma shape3_concat:
  assumes "shape3 N C D x" "n < N"
  shows "length (map concat x ! n) = C * D"
proof -
  from assms have m: "x ! n \<in> set x" "length x = N" by (auto simp: shape3_def)
  with assms(1) have l: "length (x ! n) = C" "\<forall>v\<in>set (x ! n). length v = D"
    by (auto simp: shape3_def)
  have "map length (x ! n) = replicate C D"
    using l by (intro replicate_eqI) auto
  then show ?thesis using assms(2) m(2) by (simp add: length_concat sum_list_replicate)
qed

lemma shape3_map3: "shape3 N C D x \<Longrightarrow> shape3 N C D (map (map (map f)) x)"
  by (auto simp: shape3_def)

lemma ContEmbeddings_forward_shape:
  assumes init: "ContEmbeddings_init gaf C D p use_bias activation w0 b0 = Inr self"
    and p: "0 \<le> p" "p \<le> 1"
    and X: "\<forall>row\<in>set X. length row = C"
    and act: "entrywise_activation gaf activation"
  shows "\<exists>x. ContEmbeddings_forward self training keep X = Inr x \<and> shape3 (length X) C D x"
proof -
  let ?pre = "map (\<lambda>n. map (\<lambda>c. map (\<lambda>d. ce_formula self X n c d) [0..<D]) [0..<C]) [0..<length X]"
  have sp: "shape3 (length X) C D ?pre" by (rule shape3_tab)
  from ContEmbeddings_init_Inr(4)[OF init] act
  have "ce_act_fn self = None \<or> (\<exists>f. ce_act_fn self = Some (entrywise f))"
    by (auto simp: entrywise_activation_def split: option.splits if_splits)
  then have "\<exists>y. (case ce_act_fn self of None \<Rightarrow> Inr ?pre | Some f \<Rightarrow> f ?pre) = Inr y
       \<and> shape3 (length X) C D y"
    using sp shape3_map3[OF sp] by (auto simp: entrywise_def simp del: map_map)
  then obtain y where y: "(case ce_act_fn self of None \<Rightarrow> Inr ?pre | Some f \<Rightarrow> f ?pre) = Inr y"
    "shape3 (length X) C D y" by blast
  have "ContEmbeddings_forward self training keep X
      = Inr (if training then dropout3 p keep y else y)"
    using ContEmbeddings_forward_eval[OF init p X, of training keep] by (simp only: y(1) bindE_Inr)
  moreover have "shape3 (length X) C D (if training then dropout3 p keep y else y)"
    using y(2) by (auto intro: shape3_dropout3)
  ultimately show ?thesis by blast
qed

lemma select_cols_shape:
  assumes "mapE (getitem column_idx) cols = Inr idx"
    and "cont_cols_in_range column_idx cols X"
  shows "\<exists>xc. select_cols X idx = Inr xc \<and> length xc = length X
            \<and> (\<forall>row\<in>set xc. length row = length cols)"
proof -
  have li: "length idx = length cols" using assms(1) by (rule mapE_length)
  have row: "\<exists>y. mapE (\<lambda>i. bindE (index_dim (length row) i) (\<lambda>j. Inr (row ! j))) idx = Inr y
               \<and> length y = length cols" if "row \<in> set X" for row
  proof -
    have "\<exists>y. mapE (\<lambda>i. bindE (index_dim (length row) i) (\<lambda>j. Inr (row ! j))) idx = Inr y
               \<and> list_all2 (\<lambda>i v. True) idx y"
    proof (intro mapE_ex)
      fix i assume "i \<in> set idx"
      then obtain k where k: "k < length cols" "idx ! k = i" using li by (auto simp: in_set_conv_nth)
      from mapE_nth[OF assms(1) k(1)] k(2) have "getitem column_idx (cols ! k) = Inr i" by simp
      then have "column_idx (cols ! k) = Some i" by (auto simp: getitem_def split: option.splits)
      with assms(2) k(1) that obtain j where "index_dim (length row) i = Inr j"
        unfolding cont_cols_in_range_def by (metis nth_mem option.inject)
      then show "\<exists>y. bindE (index_dim (length row) i) (\<lambda>j. Inr (row ! j)) = Inr y \<and> True" by simp
    qed
    then show ?thesis using li by (auto dest: list_all2_lengthD)
  qed
  have "\<exists>xc. select_cols X idx = Inr xc \<and> list_all2 (\<lambda>row y. length y = length cols) X xc"
    unfolding select_cols_def using row by (intro mapE_ex) blast
  then show ?thesis by (auto simp: list_all2_conv_all_nth in_set_conv_nth)
qed

lemma cont_branch_shape:
  assumes "mapE (getitem column_idx) cols = Inr idx"
    and "cont_cols_in_range column_idx cols X"
    and "\<And>xc. select_cols X idx = Inr xc
           \<Longrightarrow> \<exists>t'. NormLayers_forward nf layer training xc = Inr t' \<and> same_shape xc t'"
  shows "\<exists>xc. cont_branch nf (Some layer) (Some idx) training X = Inr xc \<and> length xc = length X
            \<and> (\<forall>row\<in>set xc. length row = length cols)"
proof -
  from select_cols_shape[OF assms(1,2)] obtain xc where xc: "select_cols X idx = Inr xc"
    "length xc = length X" "\<forall>row\<in>set xc. length row = length cols" by blast
  from assms(3)[OF xc(1)] obtain t' where
    t: "NormLayers_forward nf layer training xc = Inr t'" "length t' = length xc"
      "\<forall>n<length xc. length (t' ! n) = length (xc ! n)"
    by (auto simp: same_shape_def)
  have "\<forall>row\<in>set t'. length row = length cols"
  proof
    fix row assume "row \<in> set t'"
    then obtain n where n: "n < length t'" "t' ! n = row" by (auto simp: in_set_conv_nth)
    then have "length row = length (xc ! n)" using t(2,3) by auto
    moreover have "xc ! n \<in> set xc" using n(1) t(2) by simp
    ultimately show "length row = length cols" using xc(3) by simp
  qed
  then show ?thesis using t xc by (simp add: cont_branch_def attr_def)
qed

lemma dcc_init_Inr:
  assumes "DiffSizeCatAndContEmbeddings_init gaf column_idx cei cdp cc ec D cedp act ub nl w0 cw0 cb0 = Inr self"
  shows "dcc_cat_embed_input self = cei" "dcc_continuous_cols self = cc"
    "dcc_embed_continuous self = ec"
    "dcc_output_dim self = dcc_cat_out_dim self + dcc_cont_out_dim self"
    "cei = None \<Longrightarrow> dcc_cat_out_dim self = 0"
    "\<And>ei. cei = Some ei \<Longrightarrow> \<exists>ce. dcc_cat_embed self = Some ce
        \<and> DiffSizeCatEmbeddings_init column_idx ei cdp w0 = Inr ce
        \<and> dcc_cat_out_dim self = sum_list (map (\<lambda>e. snd (snd e)) ei)"
    "cc = None \<Longrightarrow> dcc_cont_out_dim self = 0"
    "\<And>cols. cc = Some cols \<Longrightarrow> \<exists>idx. dcc_cont_idx self = Some idx
        \<and> mapE (getitem column_idx) cols = Inr idx
        \<and> dcc_cont_norm self = Some (NormLayers_init nl (length cols))
        \<and> (if ec then \<exists>ce. dcc_cont_embed self = Some ce
                  \<and> ContEmbeddings_init gaf (length cols) D cedp ub act cw0 cb0 = Inr ce
                  \<and> dcc_cont_out_dim self = length cols * D
            else dcc_cont_out_dim self = length cols)"
  using assms
  by (auto simp: DiffSizeCatAndContEmbeddings_init_def bindE_eq_Inr
      split: option.splits if_splits prod.splits)

text \<open>
  Claim C9, as amended. The variable-width composite built with \<^verbatim>\<open>None\<close> for the
  categorical specification and \<^verbatim>\<open>None\<close> for the continuous columns has \<^verbatim>\<open>output_dim\<close> 0,
  and its forward pass returns the pair \<open>(None, None)\<close> on every batch, of any width, in
  training and in evaluation mode.
\<close>

theorem DiffSizeCatAndContEmbeddings_no_columns:
  "\<exists>self. DiffSizeCatAndContEmbeddings_init get_activation_fn column_idx None cat_embed_dropout
              None embed_continuous cont_embed_dim cont_embed_dropout cont_embed_activation
              use_cont_bias cont_norm_layer w0 cw0 cb0 = Inr self
     \<and> dcc_output_dim self = 0
     \<and> DiffSizeCatAndContEmbeddings_forward nf self training keep ckeep X = Inr (None, None)"
  by (simp add: DiffSizeCatAndContEmbeddings_init_def DiffSizeCatAndContEmbeddings_forward_def)

theorem DiffSizeCatAndContEmbeddings_no_columns_witness:
  "\<exists>self. DiffSizeCatAndContEmbeddings_init (\<lambda>a. Inl ValueError) Map.empty None 0
              None False 4 0 None True None (\<lambda>c i j. 1) (\<lambda>c d. 3) (\<lambda>c d. 1) = Inr self
     \<and> dcc_output_dim self = 0
     \<and> DiffSizeCatAndContEmbeddings_forward (\<lambda>L tr t. Inr t) self True (\<lambda>js. True)
         (\<lambda>js. True) [[1, 2, 3]] = Inr (None, None)"
  using DiffSizeCatAndContEmbeddings_no_columns[of "\<lambda>a. Inl ValueError" Map.empty 0 False 4 0
      None True None "\<lambda>c i j. 1" "\<lambda>c d. 3" "\<lambda>c d. 1" "\<lambda>L tr t. Inr t" True "\<lambda>js. True"
      "\<lambda>js. True" "[[1, 2, 3]]"]
  by simp

text \<open>
  Claim C9 as stated covers every composite without columns. With the empty list for the
  categorical specification the constructor succeeds with \<^verbatim>\<open>output_dim\<close> 0, but the
  branch is not absent for the forward pass, which fails: \<^verbatim>\<open>torch.cat\<close> receives no tensor.
\<close>

theorem DiffSizeCatAndContEmbeddings_empty_list_raises:
  "DiffSizeCatAndContEmbeddings_init get_activation_none Map.empty (Some []) 0 None False 4 0
       None True None zero_column_draws zero_draws zero_draws
     = Inr \<lparr> dcc_cat_embed_input = Some [], dcc_continuous_cols = None,
             dcc_embed_continuous = False,
             dcc_cat_embed = Some \<lparr> dce_column_idx = Map.empty, dce_embed_input = [],
                                   dce_embed_layers = Map.empty, dce_embedding_dropout = 0,
                                   dce_emb_out_dim = 0 \<rparr>,
             dcc_cat_out_dim = 0, dcc_cont_idx = None, dcc_cont_norm = None,
             dcc_cont_embed = None, dcc_cont_out_dim = 0, dcc_output_dim = 0 \<rparr>
   \<and> isl (DiffSizeCatAndContEmbeddings_forward norm_input
         \<lparr> dcc_cat_embed_input = Some [], dcc_continuous_cols = None,
           dcc_embed_continuous = False,
           dcc_cat_embed = Some \<lparr> dce_column_idx = Map.empty, dce_embed_input = [],
                                 dce_embed_layers = Map.empty, dce_embedding_dropout = 0,
                                 dce_emb_out_dim = 0 \<rparr>,
           dcc_cat_out_dim = 0, dcc_cont_idx = None, dcc_cont_norm = None,
           dcc_cont_embed = None, dcc_cont_out_dim = 0, dcc_output_dim = 0 \<rparr>
         False keep_all keep_all [[1, 2, 3]])"
  by (simp add: DiffSizeCatAndContEmbeddings_init_def DiffSizeCatEmbeddings_init_def
      ModuleDict_init_def Dropout_init_def DiffSizeCatAndContEmbeddings_forward_def
      DiffSizeCatEmbeddings_forward_def attr_def torch_cat1_def)

lemma dcc_cat_part:
  assumes init: "DiffSizeCatAndContEmbeddings_init gaf column_idx cei cdp cc ec D cedp act ub nl w0 cw0 cb0 = Inr self"
    and valid: "valid_batch column_idx cei cc X"
  shows "\<exists>x_cat. (case dcc_cat_embed_input self of
              None \<Rightarrow> Inr None
            | Some ei \<Rightarrow>
                bindE (attr (dcc_cat_embed self)) (\<lambda>ce.
                bindE (DiffSizeCatEmbeddings_forward ce training keep X) (\<lambda>x. Inr (Some x))))
            = Inr x_cat
       \<and> (x_cat = None \<longleftrightarrow> cei = None)
       \<and> (\<forall>n<length X. branch_width x_cat n = dcc_cat_out_dim self)"
proof (cases cei)
  case None
  then show ?thesis using dcc_init_Inr(1,5)[OF init] by (simp add: branch_width_def)
next
  case (Some ei)
  from dcc_init_Inr(6)[OF init Some] obtain ce where ce: "dcc_cat_embed self = Some ce"
    "DiffSizeCatEmbeddings_init column_idx ei cdp w0 = Inr ce"
    "dcc_cat_out_dim self = sum_list (map (\<lambda>e. snd (snd e)) ei)" by blast
  from valid Some have v: "ei \<noteq> []" "distinct (map fst ei)" "codes_in_range column_idx ei X"
    by (simp_all add: valid_batch_def)
  from DiffSizeCatEmbeddings_forward_shape(2)[OF ce(2) v(2,3) v(1), of training keep]
  obtain out where out: "DiffSizeCatEmbeddings_forward ce training keep X = Inr out"
    "length out = length X" "\<forall>r\<in>set out. length r = dce_emb_out_dim ce" by blast
  have "dce_emb_out_dim ce = dcc_cat_out_dim self"
    using DiffSizeCatEmbeddings_init_Inr(7)[OF ce(2)] ce(3) by simp
  then have "\<forall>n<length X. branch_width (Some out) n = dcc_cat_out_dim self"
    using out(2,3) by (simp add: branch_width_def)
  then show ?thesis using Some dcc_init_Inr(1)[OF init] ce(1) out(1) by (simp add: attr_def)
qed

lemma dcc_cont_part:
  assumes init: "DiffSizeCatAndContEmbeddings_init gaf column_idx cei cdp cc ec D cedp act ub nl w0 cw0 cb0 = Inr self"
    and valid: "valid_batch column_idx cei cc X"
    and nf: "norm_returns nf column_idx cc nl training X"
    and p: "cc \<noteq> None \<and> ec \<longrightarrow> 0 \<le> cedp \<and> cedp \<le> 1 \<and> entrywise_activation gaf act"
  shows "\<exists>x_cont. (case dcc_continuous_cols self of
              None \<Rightarrow> Inr None
            | Some cols \<Rightarrow>
                bindE (cont_branch nf (dcc_cont_norm self) (dcc_cont_idx self) training X)
                  (\<lambda>x_cont.
                  if dcc_embed_continuous self then
                    bindE (attr (dcc_cont_embed self)) (\<lambda>ce.
                    bindE (ContEmbeddings_forward ce training ckeep x_cont) (\<lambda>x.
                      Inr (Some (map concat x))))
                  else Inr (Some x_cont)))
            = Inr x_cont
       \<and> (x_cont = None \<longleftrightarrow> cc = None)
       \<and> (\<forall>n<length X. branch_width x_cont n = dcc_cont_out_dim self)"
proof (cases cc)
  case None
  then show ?thesis using dcc_init_Inr(2,7)[OF init] by (simp add: branch_width_def)
next
  case (Some cols)
  from dcc_init_Inr(8)[OF init Some] obtain idx where idx: "dcc_cont_idx self = Some idx"
    "mapE (getitem column_idx) cols = Inr idx"
    "dcc_cont_norm self = Some (NormLayers_init nl (length cols))"
    and e: "if ec then \<exists>ce. dcc_cont_embed self = Some ce
                  \<and> ContEmbeddings_init gaf (length cols) D cedp ub act cw0 cb0 = Inr ce
                  \<and> dcc_cont_out_dim self = length cols * D
            else dcc_cont_out_dim self = length cols" by blast
  from valid Some have v: "cont_cols_in_range column_idx cols X" by (simp add: valid_batch_def)
  have n: "\<exists>t'. NormLayers_forward nf (NormLayers_init nl (length cols)) training xc = Inr t'
              \<and> same_shape xc t'" if "select_cols X idx = Inr xc" for xc
    using nf Some idx(2) that by (auto simp: norm_returns_def split: sum.splits)
  from cont_branch_shape[OF idx(2) v n]
  obtain xc where xc: "cont_branch nf (dcc_cont_norm self) (dcc_cont_idx self) training X = Inr xc"
    "length xc = length X" "\<forall>row\<in>set xc. length row = length cols"
    by (auto simp: idx(1,3))
  show ?thesis
  proof (cases ec)
    case False
    with e have "dcc_cont_out_dim self = length cols" by simp
    then have "\<forall>n<length X. branch_width (Some xc) n = dcc_cont_out_dim self"
      using xc(2,3) by (simp add: branch_width_def)
    then show ?thesis using Some False dcc_init_Inr(2,3)[OF init] xc(1) by simp
  next
    case True
    with e obtain ce where ce: "dcc_cont_embed self = Some ce"
      "ContEmbeddings_init gaf (length cols) D cedp ub act cw0 cb0 = Inr ce"
      "dcc_cont_out_dim self = length cols * D" by auto
    from p Some True have pp: "0 \<le> cedp" "cedp \<le> 1" "entrywise_activation gaf act"
      by simp_all
    from ContEmbeddings_forward_shape[OF ce(2) pp(1,2) xc(3) pp(3), of training ckeep]
    obtain x where x: "ContEmbeddings_forward ce training ckeep xc = Inr x"
      "shape3 (length xc) (length cols) D x" by blast
    have "\<forall>n<length X. branch_width (Some (map concat x)) n = dcc_cont_out_dim self"
      using shape3_concat[OF x(2)] xc(2) ce(3) by (simp add: branch_width_def)
    then show ?thesis using Some True dcc_init_Inr(2,3)[OF init] xc(1) ce(1) x(1)
      by (simp add: attr_def)
  qed
qed

text \<open>
  Claim C1, as amended. The variable-width composite has the attribute \<^verbatim>\<open>output_dim\<close>;
  the constructor computes it from the specification alone, as the sum of the widths of
  the categorical columns plus \<open>C * D\<close> for embedded continuous columns or \<open>C\<close> for raw
  ones. For every valid batch on which the normalisation layer returns a tensor of the
  shape of its input (batch normalisation in training mode rejects a batch of one row),
  with a dropout probability in \<open>[0, 1]\<close> and no activation or an entrywise one for
  embedded continuous columns, the forward pass returns the two branches, in training
  and in evaluation mode, and in every row the widths of the branches (the continuous
  one flattened) add up to \<^verbatim>\<open>output_dim\<close>.
\<close>

theorem DiffSizeCatAndContEmbeddings_output_dim:
  assumes init: "DiffSizeCatAndContEmbeddings_init get_activation_fn column_idx cat_embed_input
              cat_embed_dropout continuous_cols embed_continuous cont_embed_dim
              cont_embed_dropout cont_embed_activation use_cont_bias cont_norm_layer
              w0 cw0 cb0 = Inr self"
    and valid: "valid_batch column_idx cat_embed_input continuous_cols X"
    and nf: "norm_returns nf column_idx continuous_cols cont_norm_layer training X"
    and p: "continuous_cols \<noteq> None \<and> embed_continuous
            \<longrightarrow> 0 \<le> cont_embed_dropout \<and> cont_embed_dropout \<le> 1
                \<and> entrywise_activation get_activation_fn cont_embed_activation"
  shows "hasattr (DiffSizeCatAndContEmbeddings_dir self) ''output_dim''
     \<and> dcc_output_dim self =
           (case cat_embed_input of
              None \<Rightarrow> 0
            | Some ei \<Rightarrow> sum_list (map (\<lambda>embed. snd (snd embed)) ei))
           + (case continuous_cols of
                None \<Rightarrow> 0
              | Some cols \<Rightarrow> if embed_continuous then length cols * cont_embed_dim
                             else length cols)
     \<and> (\<exists>x_cat x_cont.
           DiffSizeCatAndContEmbeddings_forward nf self training keep ckeep X
             = Inr (x_cat, x_cont)
           \<and> (x_cat = None \<longleftrightarrow> cat_embed_input = None)
           \<and> (x_cont = None \<longleftrightarrow> continuous_cols = None)
           \<and> (\<forall>n<length X. branch_width x_cat n + branch_width x_cont n
                               = dcc_output_dim self))"
proof -
  note I = dcc_init_Inr[OF init]
  have dims: "dcc_output_dim self =
           (case cat_embed_input of
              None \<Rightarrow> 0
            | Some ei \<Rightarrow> sum_list (map (\<lambda>embed. snd (snd embed)) ei))
           + (case continuous_cols of
                None \<Rightarrow> 0
              | Some cols \<Rightarrow> if embed_continuous then length cols * cont_embed_dim
                             else length cols)"
    using I(4) I(5) I(6) I(7) I(8)
    by (cases cat_embed_input; cases continuous_cols; cases embed_continuous) fastforce+
  from dcc_cat_part[OF init valid, of training keep] obtain x_cat where
    c: "(case dcc_cat_embed_input self of
              None \<Rightarrow> Inr None
            | Some ei \<Rightarrow>
                bindE (attr (dcc_cat_embed self)) (\<lambda>ce.
                bindE (DiffSizeCatEmbeddings_forward ce training keep X) (\<lambda>x. Inr (Some x))))
            = Inr x_cat" "x_cat = None \<longleftrightarrow> cat_embed_input = None"
       "\<forall>n<length X. branch_width x_cat n = dcc_cat_out_dim self" by blast
  from dcc_cont_part[OF init valid nf p, of ckeep] obtain x_cont where
    d: "(case dcc_continuous_cols self of
              None \<Rightarrow> Inr None
            | Some cols \<Rightarrow>
                bindE (cont_branch nf (dcc_cont_norm self) (dcc_cont_idx self) training X)
                  (\<lambda>x_cont.
                  if dcc_embed_continuous self then
                    bindE (attr (dcc_cont_embed self)) (\<lambda>ce.
                    bindE (ContEmbeddings_forward ce training ckeep x_cont) (\<lambda>x.
                      Inr (Some (map concat x))))
                  else Inr (Some x_cont)))
            = Inr x_cont" "x_cont = None \<longleftrightarrow> continuous_cols = None"
       "\<forall>n<length X. branch_width x_cont n = dcc_cont_out_dim self" by blast
  have "DiffSizeCatAndContEmbeddings_forward nf self training keep ckeep X = Inr (x_cat, x_cont)"
    unfolding DiffSizeCatAndContEmbeddings_forward_def c(1) d(1) by simp
  moreover have "hasattr (DiffSizeCatAndContEmbeddings_dir self) ''output_dim''"
    by (simp add: hasattr_def DiffSizeCatAndContEmbeddings_dir_def)
  ultimately show ?thesis using dims c(2,3) d(2,3) I(4) by auto
qed

theorem DiffSizeCatAndContEmbeddings_output_dim_witness:
  "\<exists>self. DiffSizeCatAndContEmbeddings_init get_activation_relu_reglu
              [''a'' \<mapsto> 0, ''e'' \<mapsto> 1] (Some [(''a'', 3, 2)]) 0 (Some [''e'']) True 4 0
              (Some ''relu'') True (Some ''batchnorm'')
              (\<lambda>c. const_draws 1) (const_draws 3) (const_draws 1) = Inr self
     \<and> valid_batch [''a'' \<mapsto> 0, ''e'' \<mapsto> 1] (Some [(''a'', 3, 2)]) (Some [''e''])
           [[2, 1/2], [3, - 1]]
     \<and> norm_returns norm_input [''a'' \<mapsto> 0, ''e'' \<mapsto> 1] (Some [''e'']) (Some ''batchnorm'')
           True [[2, 1/2], [3, - 1]]
     \<and> entrywise_activation get_activation_relu_reglu (Some ''relu'')
     \<and> hasattr (DiffSizeCatAndContEmbeddings_dir self) ''output_dim''
     \<and> dcc_output_dim self = 6
     \<and> (\<exists>x_cat x_cont.
           DiffSizeCatAndContEmbeddings_forward norm_input self True keep_all keep_all
               [[2, 1/2], [3, - 1]] = Inr (x_cat, x_cont)
           \<and> (\<forall>n<length [[2, 1/2], [3, - 1::real]].
                 branch_width x_cat n + branch_width x_cont n = 6))"
proof -
  have "\<exists>self. DiffSizeCatAndContEmbeddings_init get_activation_relu_reglu
              [''a'' \<mapsto> 0, ''e'' \<mapsto> 1] (Some [(''a'', 3, 2)]) 0 (Some [''e'']) True 4 0
              (Some ''relu'') True (Some ''batchnorm'')
              (\<lambda>c. const_draws 1) (const_draws 3) (const_draws 1) = Inr self"
    by (simp add: DiffSizeCatAndContEmbeddings_init_def DiffSizeCatEmbeddings_init_def
        Embedding_init_def ModuleDict_init_def Dropout_init_def getitem_def
        ContEmbeddings_init_def get_activation_relu_reglu_def)
  then obtain self where h1: "DiffSizeCatAndContEmbeddings_init get_activation_relu_reglu
              [''a'' \<mapsto> 0, ''e'' \<mapsto> 1] (Some [(''a'', 3, 2)]) 0 (Some [''e'']) True 4 0
              (Some ''relu'') True (Some ''batchnorm'')
              (\<lambda>c. const_draws 1) (const_draws 3) (const_draws 1) = Inr self" by blast
  have h2: "valid_batch [''a'' \<mapsto> 0, ''e'' \<mapsto> 1] (Some [(''a'', 3, 2)]) (Some [''e''])
           [[2, 1/2], [3, - 1]]"
    by (simp add: valid_batch_def codes_in_range_def cont_cols_in_range_def index_dim_def long_def)
  have h3: "norm_returns norm_input [''a'' \<mapsto> 0, ''e'' \<mapsto> 1] (Some [''e'']) (Some ''batchnorm'')
           True [[2, 1/2], [3, - 1]]"
    by (simp add: norm_returns_def getitem_def select_cols_def index_dim_def NormLayers_init_def
        NormLayers_forward_def norm_input_def same_shape_def less_Suc_eq numeral_2_eq_2)
  have a: "entrywise_activation get_activation_relu_reglu (Some ''relu'')"
    by (auto simp: entrywise_activation_def get_activation_relu_reglu_def)
  have h4: "Some [''e''] \<noteq> None \<and> True \<longrightarrow> (0::real) \<le> 0 \<and> (0::real) \<le> 1
              \<and> entrywise_activation get_activation_relu_reglu (Some ''relu'')"
    using a by simp
  from DiffSizeCatAndContEmbeddings_output_dim[OF h1 h2 h3 h4, of keep_all keep_all]
  have c: "hasattr (DiffSizeCatAndContEmbeddings_dir self) ''output_dim''"
    "dcc_output_dim self = 6"
    "\<exists>x_cat x_cont.
           DiffSizeCatAndContEmbeddings_forward norm_input self True keep_all keep_all
               [[2, 1/2], [3, - 1]] = Inr (x_cat, x_cont)
           \<and> (\<forall>n<length [[2, 1/2], [3, - 1::real]].
                 branch_width x_cat n + branch_width x_cont n = 6)"
    by auto
  show ?thesis using h1 h2 h3 a c by blast
qed

text \<open>
  Claim C1 as stated also covers the fixed-width composite. Its constructor assigns no
  attribute \<^verbatim>\<open>output_dim\<close>: here for one raw continuous column.
\<close>

theorem SameSizeCatAndContEmbeddings_has_no_output_dim:
  "SameSizeCatAndContEmbeddings_init get_activation_none 4 [''e'' \<mapsto> 0] None 0 False False False
       (1/4) None (Some [''e'']) False 0 None False None
       zero_draws zero_draws zero_column_draws zero_shared_draws zero_draws zero_draws
     = ([], Inr \<lparr> scc_cat_embed_input = None, scc_continuous_cols = Some [''e''],
                   scc_embed_continuous = False, scc_cat_embed = None,
                   scc_cont_idx = Some [0], scc_cont_norm = Some Identity,
                   scc_cont_embed = None \<rparr>)
   \<and> \<not> hasattr (SameSizeCatAndContEmbeddings_dir
                  \<lparr> scc_cat_embed_input = None, scc_continuous_cols = Some [''e''],
                    scc_embed_continuous = False, scc_cat_embed = None,
                    scc_cont_idx = Some [0], scc_cont_norm = Some Identity,
                    scc_cont_embed = None \<rparr>) ''output_dim''"
  by (simp add: SameSizeCatAndContEmbeddings_init_def getitem_def NormLayers_init_def
      SameSizeCatAndContEmbeddings_dir_def hasattr_def)

lemma sce_init_Inr:
  assumes "SameSizeCatEmbeddings_init D column_idx (Some ei) p full shared add fr use_bias b0 t0 w0 s0
           = (ws, Inr self)"
  shows "ws = (if use_bias \<noteq> None \<and> shared then [bias_warning] else [])"
    "sce_bias self = (if use_bias \<noteq> None then Some (tabulate2 (length ei) D b0) else None)"
    "sce_shared_embed self = shared" "sce_embed_input self = ei" "sce_column_idx self = column_idx"
    "mapE (getitem column_idx) (map fst ei) = Inr (sce_cat_idx self)"
    "\<not> shared \<Longrightarrow> sce_embed self
        = Embedding (tabulate2 (sum_list (map snd ei) + 1) D (\<lambda>i j. if i = 0 then 0 else t0 i j))
      \<and> (\<exists>dp. DropoutLayers_init full p = Inr dp \<and> sce_dropout self = Some dp)"
  using assms
  by (auto simp: SameSizeCatEmbeddings_init_def Let_def bindE_eq_Inr
      Embedding_init_def split: sum.splits if_splits)

lemma bindE_Inl_const: "(\<And>v. \<exists>e. f v = Inl e) \<Longrightarrow> \<exists>e. bindE m f = Inl e"
  by (cases m) auto

lemma sce_forward_no_bias:
  assumes "\<not> sce_shared_embed self" "sce_bias self = None"
  shows "\<exists>e. SameSizeCatEmbeddings_forward self training keep m X = Inl e"
  unfolding SameSizeCatEmbeddings_forward_def using assms
  by (auto intro!: bindE_Inl_const)

lemma sce_forward_shared_bias:
  assumes "sce_shared_embed self"
  shows "SameSizeCatEmbeddings_forward (self\<lparr>sce_bias := B\<rparr>) training keep m X
       = SameSizeCatEmbeddings_forward self training keep m X"
  using assms by (simp add: SameSizeCatEmbeddings_forward_def)

lemma sce_shared_items:
  assumes cols: "\<forall>(col, val)\<in>set ei. col = ''cls_token'' \<longrightarrow> 0 < val"
    and fr: "fr < 1" "0 \<le> fr \<or> add" and p: "0 \<le> p" "p \<le> 1"
  shows "\<exists>items. mapE (\<lambda>(col, val).
                  bindE (SharedEmbeddings_init (if col = ''cls_token'' then val else val + 1)
                           D p full add fr (w0 col) (s0 col))
                    (\<lambda>layer. Inr (emb_layer col, layer))) ei = Inr items
           \<and> list_all2 (\<lambda>e it. fst it = emb_layer (fst e)) ei items"
proof (intro mapE_ex)
  fix x assume x: "x \<in> set ei"
  obtain col val where e: "x = (col, val)" by (cases x)
  from cols x e have "0 < (if col = ''cls_token'' then val else val + 1)" by auto
  from SharedEmbeddings_init_ok[OF fr this p, of D full "w0 col" "s0 col"]
  show "\<exists>y. (case x of (col, val) \<Rightarrow>
                  bindE (SharedEmbeddings_init (if col = ''cls_token'' then val else val + 1)
                           D p full add fr (w0 col) (s0 col))
                    (\<lambda>layer. Inr (emb_layer col, layer))) = Inr y
            \<and> fst y = emb_layer (fst x)"
    by (auto simp: e)
qed

text \<open>
  Claim C3. With \<^verbatim>\<open>use_bias = True\<close> in shared-embedding mode the constructor of the
  fixed-width embedder emits the warning and returns an instance: the one it returns
  without a bias, apart from the bias attribute. The forward pass of that instance does
  not depend on the bias: it is the same for every value of the attribute.
\<close>

theorem SameSizeCatEmbeddings_shared_bias_warns:
  assumes cols: "\<forall>(col, val)\<in>set ei. col \<in> dom column_idx \<and> CHR ''.'' \<notin> set col
                                         \<and> (col = ''cls_token'' \<longrightarrow> 0 < val)"
    and fr: "fr < 1" "0 \<le> fr \<or> add" and p: "0 \<le> p" "p \<le> 1"
  shows "\<exists>self. SameSizeCatEmbeddings_init embed_dim column_idx (Some ei) p full True add fr
                  (Some True) b0 t0 w0 s0 = ([bias_warning], Inr self)
     \<and> SameSizeCatEmbeddings_init embed_dim column_idx (Some ei) p full True add fr
                  None b0 t0 w0 s0 = ([], Inr (self\<lparr>sce_bias := None\<rparr>))
     \<and> (\<forall>B. SameSizeCatEmbeddings_forward (self\<lparr>sce_bias := B\<rparr>) training keep m X
            = SameSizeCatEmbeddings_forward self training keep m X)"
proof -
  have "\<exists>idx. mapE (getitem column_idx) (map fst ei) = Inr idx \<and> list_all2 (\<lambda>c i. True) (map fst ei) idx"
    using cols by (intro mapE_ex) (auto simp: getitem_def dom_def)
  then obtain idx where idx: "mapE (getitem column_idx) (map fst ei) = Inr idx" by blast
  have c2: "\<forall>(col, val)\<in>set ei. col = ''cls_token'' \<longrightarrow> 0 < val" using cols by auto
  from sce_shared_items[OF c2 fr p, of embed_dim full w0 s0] obtain items where
    items: "mapE (\<lambda>(col, val).
                  bindE (SharedEmbeddings_init (if col = ''cls_token'' then val else val + 1)
                           embed_dim p full add fr (w0 col) (s0 col))
                    (\<lambda>layer. Inr (emb_layer col, layer))) ei = Inr items"
    and l: "list_all2 (\<lambda>e it. fst it = emb_layer (fst e)) ei items" by blast
  have "map fst items = map emb_layer (map fst ei)"
    using l by (induction rule: list_all2_induct) auto
  then have nodot: "\<not> (\<exists>k\<in>set (map fst items). CHR ''.'' \<in> set k)"
    using cols by (simp only:) auto
  then have md: "ModuleDict_init items = Inr (map_of (rev items))"
    by (simp only: ModuleDict_init_def if_False)
  let ?mk = "\<lambda>bias. \<lparr> sce_column_idx = column_idx, sce_embed_input = ei,
                  sce_embed_dropout = p, sce_shared_embed = True,
                  sce_n_tokens = sum_list (map snd ei),
                  sce_categorical_cols = map fst ei, sce_cat_idx = idx,
                  sce_bias = bias, sce_embed = ModuleDict (map_of (rev items)),
                  sce_dropout = None \<rparr>"
  have a: "SameSizeCatEmbeddings_init embed_dim column_idx (Some ei) p full True add fr
                  (Some True) b0 t0 w0 s0
           = ([bias_warning], Inr (?mk (Some (tabulate2 (length ei) embed_dim b0))))"
    by (simp add: SameSizeCatEmbeddings_init_def idx items md Let_def)
  have b: "SameSizeCatEmbeddings_init embed_dim column_idx (Some ei) p full True add fr
                  None b0 t0 w0 s0 = ([], Inr (?mk None))"
    by (simp add: SameSizeCatEmbeddings_init_def idx items md Let_def)
  show ?thesis
    apply (rule exI[of _ "?mk (Some (tabulate2 (length ei) embed_dim b0))"])
    using a b by (simp add: SameSizeCatEmbeddings_forward_def)
qed

theorem SameSizeCatEmbeddings_shared_bias_warns_witness:
  "''a'' \<in> dom [''a'' \<mapsto> (0::int)] \<and> CHR ''.'' \<notin> set ''a'' \<and> ''a'' \<noteq> ''cls_token''
   \<and> (1/4::real) < 1 \<and> ((0::real) \<le> 1/4 \<or> False) \<and> (0::real) \<le> 0 \<and> (0::real) \<le> 1
   \<and> (\<exists>self. SameSizeCatEmbeddings_init 2 [''a'' \<mapsto> 0] (Some [(''a'', 3)]) 0 False True False (1/4)
                  (Some True) (\<lambda>i j. 1) (\<lambda>i j. 2) (\<lambda>c i j. 0) (\<lambda>c j. 0) = ([bias_warning], Inr self)
     \<and> SameSizeCatEmbeddings_init 2 [''a'' \<mapsto> 0] (Some [(''a'', 3)]) 0 False True False (1/4)
                  None (\<lambda>i j. 1) (\<lambda>i j. 2) (\<lambda>c i j. 0) (\<lambda>c j. 0) = ([], Inr (self\<lparr>sce_bias := None\<rparr>))
     \<and> (\<forall>B. SameSizeCatEmbeddings_forward (self\<lparr>sce_bias := B\<rparr>) False (\<lambda>js. True) (\<lambda>k c. 1) [[2]]
            = SameSizeCatEmbeddings_forward self False (\<lambda>js. True) (\<lambda>k c. 1) [[2]]))"
proof -
  have h1: "\<forall>(col, val)\<in>set [(''a'', 3::nat)]. col \<in> dom [''a'' \<mapsto> (0::int)] \<and> CHR ''.'' \<notin> set col
                                         \<and> (col = ''cls_token'' \<longrightarrow> 0 < val)" by simp
  have h2: "(1/4::real) < 1" "(0::real) \<le> 1/4 \<or> False" by simp_all
  have h3: "(0::real) \<le> 0" "(0::real) \<le> 1" by simp_all
  have a: "''a'' \<in> dom [''a'' \<mapsto> (0::int)]" "CHR ''.'' \<notin> set ''a''" "''a'' \<noteq> ''cls_token''"
    by simp_all
  show ?thesis
    using SameSizeCatEmbeddings_shared_bias_warns[OF h1 h2 h3, of 2 False "\<lambda>i j. 1" "\<lambda>i j. 2"
        "\<lambda>c i j. 0" "\<lambda>c j. 0" False "\<lambda>js. True" "\<lambda>k c. 1" "[[2]]"] a h2 h3
    by blast
qed

lemma index_dim_pos: "index_dim n i = Inr j \<Longrightarrow> j = pos n i"
  by (auto simp: index_dim_def pos_def split: if_splits)

lemma DropoutLayers_forward3_eval:
  "DropoutLayers_init full p = Inr dp \<Longrightarrow> DropoutLayers_forward3 dp False keep m x = Inr x"
  by (auto simp: DropoutLayers_init_def DropoutLayers_forward3_def Dropout_init_def
      FullEmbeddingDropout_init_def F_dropout3_def FullEmbeddingDropout_forward3_def
      split: if_splits)

lemma sce_single_forward:
  assumes init: "SameSizeCatEmbeddings_init D column_idx (Some ei) p full False add fr (Some b)
                   b0 t0 w0 s0 = (ws, Inr self)"
    and codes: "table_codes_in_range column_idx ei X"
  shows "\<exists>W B dp. sce_embed self = Embedding W \<and> sce_bias self = Some B
     \<and> sce_dropout self = Some dp \<and> DropoutLayers_init full p = Inr dp
     \<and> SameSizeCatEmbeddings_forward self training keep m X =
         DropoutLayers_forward3 dp training keep (m 0)
           (lookup_plus_bias W B (sce_cat_idx self) (length ei) X)"
proof -
  note I = sce_init_Inr[OF init]
  let ?idx = "sce_cat_idx self"
  let ?W = "tabulate2 (sum_list (map snd ei) + 1) D (\<lambda>i j. if i = 0 then 0 else t0 i j)"
  let ?B = "tabulate2 (length ei) D b0"
  from I(7) obtain dp where W: "sce_embed self = Embedding ?W"
    and dp: "DropoutLayers_init full p = Inr dp" "sce_dropout self = Some dp" by auto
  have B: "sce_bias self = Some ?B" using I(2) by simp
  have li: "length ?idx = length ei" using mapE_length[OF I(6)] by simp
  have ok: "index_dim (length row) i = Inr (pos (length row) i)
         \<and> 0 \<le> long (row ! pos (length row) i)
         \<and> long (row ! pos (length row) i) \<le> int (sum_list (map snd ei))"
    if "row \<in> set X" "i \<in> set ?idx" for row i
  proof -
    from that(2) li obtain k where k: "k < length ei" "?idx ! k = i"
      by (auto simp: in_set_conv_nth)
    from mapE_nth[OF I(6), of k] k have "getitem column_idx (fst (ei ! k)) = Inr i" by simp
    then have ci: "column_idx (fst (ei ! k)) = Some i"
      by (auto simp: getitem_def split: option.splits)
    have "ei ! k \<in> set ei" using k(1) by simp
    with codes ci that(1) obtain j where j: "index_dim (length row) i = Inr j"
      "0 \<le> long (row ! j)" "long (row ! j) \<le> int (sum_list (map snd ei))"
      unfolding table_codes_in_range_def by fastforce
    from index_dim_pos[OF j(1)] j show ?thesis by simp
  qed
  let ?codes = "map (\<lambda>row. map (\<lambda>i. row ! pos (length row) i) ?idx) X"
  have s: "select_cols X ?idx = Inr ?codes"
    unfolding select_cols_def
    by (intro mapE_Inr) (simp add: ok)
  let ?x = "map (map (\<lambda>x. ?W ! nat (long x))) ?codes"
  have lk: "mapE (mapE (\<lambda>x. Embedding_forward ?W (long x))) ?codes = Inr ?x"
  proof (intro mapE_Inr)
    fix r x assume "r \<in> set ?codes" "x \<in> set r"
    then obtain row i where "row \<in> set X" "i \<in> set ?idx" "x = row ! pos (length row) i" by auto
    with ok[of row i] show "Embedding_forward ?W (long x) = Inr (?W ! nat (long x))"
      by (simp add: Embedding_forward_def)
  qed
  have ab: "add_bias ?B ?x = Inr (map (\<lambda>m. map (\<lambda>c. map2 (+) (m ! c) (?B ! c)) [0..<length ?B]) ?x)"
    by (intro add_bias_Inr) (simp add: li)
  have out: "map (\<lambda>m. map (\<lambda>c. map2 (+) (m ! c) (?B ! c)) [0..<length ?B]) ?x
      = map (\<lambda>row. map (\<lambda>k. map2 (+) (?W ! nat (long (row ! pos (length row) (?idx ! k)))) (?B ! k))
               [0..<length ei]) X"
    by (simp add: li)
  have "SameSizeCatEmbeddings_forward self training keep m X =
      DropoutLayers_forward3 dp training keep (m 0)
        (lookup_plus_bias ?W ?B ?idx (length ei) X)"
    unfolding SameSizeCatEmbeddings_forward_def lookup_plus_bias_def
    by (simp only: I(3) if_False W SameSizeEmbed.case bindE_Inr s lk B option.case ab out dp(2))
  then show ?thesis using W B dp by blast
qed

text \<open>
  Claim C4. The constructor tests \<^verbatim>\<open>use_bias is not None\<close>: for both booleans the bias is
  created, and in shared-embedding mode the warning is emitted. In single-table mode the
  forward pass, in training and in evaluation mode, hands to the dropout layer the
  lookup plus the bias, also for \<^verbatim>\<open>use_bias = False\<close>: it returns that tensor in
  evaluation mode and its elementwise dropout in training mode. The bias is missing only
  for \<^verbatim>\<open>use_bias = None\<close>, and then the forward pass of single-table mode fails.
\<close>

theorem SameSizeCatEmbeddings_bias_unconditional:
  assumes init: "SameSizeCatEmbeddings_init embed_dim column_idx (Some ei) p full shared add fr
                   use_bias b0 t0 w0 s0 = (ws, Inr self)"
  shows "(\<forall>b. use_bias = Some b \<longrightarrow>
            sce_bias self = Some (tabulate2 (length ei) embed_dim b0)
            \<and> (shared \<longrightarrow> ws = [bias_warning]))
     \<and> (\<forall>b. use_bias = Some b \<and> \<not> shared \<and> table_codes_in_range column_idx ei X \<longrightarrow>
           (\<exists>W B dp. sce_embed self = Embedding W \<and> sce_bias self = Some B
              \<and> sce_dropout self = Some dp
              \<and> SameSizeCatEmbeddings_forward self training keep m X =
                  DropoutLayers_forward3 dp training keep (m 0)
                    (lookup_plus_bias W B (sce_cat_idx self) (length ei) X)
              \<and> SameSizeCatEmbeddings_forward self False keep m X =
                  Inr (lookup_plus_bias W B (sce_cat_idx self) (length ei) X)
              \<and> (\<forall>q. dp = NnDropout q \<longrightarrow>
                    SameSizeCatEmbeddings_forward self True keep m X =
                      Inr (dropout3 q keep
                             (lookup_plus_bias W B (sce_cat_idx self) (length ei) X)))))
     \<and> (\<not> shared \<longrightarrow> (sce_bias self = None \<longleftrightarrow> use_bias = None))
     \<and> (\<not> shared \<and> sce_bias self = None \<longrightarrow>
           (\<exists>e. SameSizeCatEmbeddings_forward self training keep m X = Inl e))"
proof -
  note I = sce_init_Inr[OF init]
  have a: "\<forall>b. use_bias = Some b \<longrightarrow>
            sce_bias self = Some (tabulate2 (length ei) embed_dim b0)
            \<and> (shared \<longrightarrow> ws = [bias_warning])"
    using I(1,2) by simp
  have b: "\<forall>b. use_bias = Some b \<and> \<not> shared \<and> table_codes_in_range column_idx ei X \<longrightarrow>
           (\<exists>W B dp. sce_embed self = Embedding W \<and> sce_bias self = Some B
              \<and> sce_dropout self = Some dp
              \<and> SameSizeCatEmbeddings_forward self training keep m X =
                  DropoutLayers_forward3 dp training keep (m 0)
                    (lookup_plus_bias W B (sce_cat_idx self) (length ei) X)
              \<and> SameSizeCatEmbeddings_forward self False keep m X =
                  Inr (lookup_plus_bias W B (sce_cat_idx self) (length ei) X)
              \<and> (\<forall>q. dp = NnDropout q \<longrightarrow>
                    SameSizeCatEmbeddings_forward self True keep m X =
                      Inr (dropout3 q keep
                             (lookup_plus_bias W B (sce_cat_idx self) (length ei) X))))"
  proof (intro allI impI, elim conjE)
    fix b assume u: "use_bias = Some b" "\<not> shared" and c: "table_codes_in_range column_idx ei X"
    with init have i: "SameSizeCatEmbeddings_init embed_dim column_idx (Some ei) p full False
                   add fr (Some b) b0 t0 w0 s0 = (ws, Inr self)" by simp
    from sce_single_forward[OF i c, of training keep m] obtain W B dp where
      W: "sce_embed self = Embedding W" "sce_bias self = Some B" "sce_dropout self = Some dp"
      and dp: "DropoutLayers_init full p = Inr dp"
      and f: "SameSizeCatEmbeddings_forward self training keep m X =
                  DropoutLayers_forward3 dp training keep (m 0)
                    (lookup_plus_bias W B (sce_cat_idx self) (length ei) X)" by blast
    let ?T = "lookup_plus_bias W B (sce_cat_idx self) (length ei) X"
    from sce_single_forward[OF i c, of False keep m] W
    have "SameSizeCatEmbeddings_forward self False keep m X
        = DropoutLayers_forward3 dp False keep (m 0) ?T" by auto
    then have e: "SameSizeCatEmbeddings_forward self False keep m X = Inr ?T"
      by (simp add: DropoutLayers_forward3_eval[OF dp])
    from sce_single_forward[OF i c, of True keep m] W
    have t: "SameSizeCatEmbeddings_forward self True keep m X
        = DropoutLayers_forward3 dp True keep (m 0) ?T" by auto
    have "\<forall>q. dp = NnDropout q \<longrightarrow>
        SameSizeCatEmbeddings_forward self True keep m X = Inr (dropout3 q keep ?T)"
      using dp
      by (auto simp: t DropoutLayers_forward3_def F_dropout3_def DropoutLayers_init_def
          Dropout_init_def bindE_eq_Inr split: if_splits)
    with W f e show "\<exists>W B dp. sce_embed self = Embedding W \<and> sce_bias self = Some B
              \<and> sce_dropout self = Some dp
              \<and> SameSizeCatEmbeddings_forward self training keep m X =
                  DropoutLayers_forward3 dp training keep (m 0)
                    (lookup_plus_bias W B (sce_cat_idx self) (length ei) X)
              \<and> SameSizeCatEmbeddings_forward self False keep m X =
                  Inr (lookup_plus_bias W B (sce_cat_idx self) (length ei) X)
              \<and> (\<forall>q. dp = NnDropout q \<longrightarrow>
                    SameSizeCatEmbeddings_forward self True keep m X =
                      Inr (dropout3 q keep
                             (lookup_plus_bias W B (sce_cat_idx self) (length ei) X)))"
      by blast
  qed
  have c: "\<not> shared \<longrightarrow> (sce_bias self = None \<longleftrightarrow> use_bias = None)"
    using I(2) by simp
  have d: "\<not> shared \<and> sce_bias self = None \<longrightarrow>
           (\<exists>e. SameSizeCatEmbeddings_forward self training keep m X = Inl e)"
    using sce_forward_no_bias[of self training keep m X] I(3) by simp
  from a b c d show ?thesis by blast
qed

theorem SameSizeCatEmbeddings_bias_unconditional_witness:
  "SameSizeCatEmbeddings_init 2 [''a'' \<mapsto> 0] (Some [(''a'', 3)]) 0 False False False (1/4)
      (Some False) (const_draws 1) (const_draws 2) (\<lambda>c. const_draws 0) (\<lambda>c j. 0)
    = ([], Inr \<lparr> sce_column_idx = [''a'' \<mapsto> 0], sce_embed_input = [(''a'', 3)],
                  sce_embed_dropout = 0, sce_shared_embed = False, sce_n_tokens = 3,
                  sce_categorical_cols = [''a''], sce_cat_idx = [0],
                  sce_bias = Some (tabulate2 1 2 (const_draws 1)),
                  sce_embed = Embedding (tabulate2 4 2 (\<lambda>i j. if i = 0 then 0
                                                              else const_draws 2 i j)),
                  sce_dropout = Some (NnDropout 0) \<rparr>)
   \<and> table_codes_in_range [''a'' \<mapsto> 0] [(''a'', 3)] [[2]]
   \<and> SameSizeCatEmbeddings_forward
        \<lparr> sce_column_idx = [''a'' \<mapsto> 0], sce_embed_input = [(''a'', 3)],
          sce_embed_dropout = 0, sce_shared_embed = False, sce_n_tokens = 3,
          sce_categorical_cols = [''a''], sce_cat_idx = [0],
          sce_bias = Some (tabulate2 1 2 (const_draws 1)),
          sce_embed = Embedding (tabulate2 4 2 (\<lambda>i j. if i = 0 then 0
                                                      else const_draws 2 i j)),
          sce_dropout = Some (NnDropout 0) \<rparr> False keep_all (\<lambda>k c. 1) [[2]]
       = Inr [[[3, 3]]]
   \<and> SameSizeCatEmbeddings_forward
        \<lparr> sce_column_idx = [''a'' \<mapsto> 0], sce_embed_input = [(''a'', 3)],
          sce_embed_dropout = 0, sce_shared_embed = False, sce_n_tokens = 3,
          sce_categorical_cols = [''a''], sce_cat_idx = [0],
          sce_bias = Some (tabulate2 1 2 (const_draws 1)),
          sce_embed = Embedding (tabulate2 4 2 (\<lambda>i j. if i = 0 then 0
                                                      else const_draws 2 i j)),
          sce_dropout = Some (NnDropout 0) \<rparr> True keep_all (\<lambda>k c. 1) [[2]]
       = Inr [[[3, 3]]]"
proof -
  let ?self = "\<lparr> sce_column_idx = [''a'' \<mapsto> 0], sce_embed_input = [(''a'', 3)],
                  sce_embed_dropout = 0, sce_shared_embed = False, sce_n_tokens = 3,
                  sce_categorical_cols = [''a''], sce_cat_idx = [0],
                  sce_bias = Some (tabulate2 1 2 (const_draws 1)),
                  sce_embed = Embedding (tabulate2 4 2 (\<lambda>i j. if i = 0 then 0
                                                              else const_draws 2 i j)),
                  sce_dropout = Some (NnDropout 0) \<rparr>"
  have h1: "SameSizeCatEmbeddings_init 2 [''a'' \<mapsto> 0] (Some [(''a'', 3)]) 0 False False False
      (1/4) (Some False) (const_draws 1) (const_draws 2) (\<lambda>c. const_draws 0) (\<lambda>c j. 0)
      = ([], Inr ?self)"
    by (simp add: SameSizeCatEmbeddings_init_def getitem_def Embedding_init_def
        DropoutLayers_init_def Dropout_init_def Let_def)
  have h2: "table_codes_in_range [''a'' \<mapsto> 0] [(''a'', 3)] [[2]]"
    by (simp add: table_codes_in_range_def index_dim_def long_def)
  have h3: "Some False = Some False \<and> \<not> False
              \<and> table_codes_in_range [''a'' \<mapsto> 0] [(''a'', 3)] [[2]]"
    using h2 by simp
  note th = SameSizeCatEmbeddings_bias_unconditional[OF h1, of "[[2]]" True keep_all "\<lambda>k c. 1"]
  from th[THEN conjunct2, THEN conjunct1, THEN spec, THEN mp, OF h3]
  obtain W B dp where w: "sce_embed ?self = Embedding W" "sce_bias ?self = Some B"
    "sce_dropout ?self = Some dp"
    "SameSizeCatEmbeddings_forward ?self False keep_all (\<lambda>k c. 1) [[2]] =
        Inr (lookup_plus_bias W B (sce_cat_idx ?self) (length [(''a'', 3::nat)]) [[2]])"
    "\<forall>q. dp = NnDropout q \<longrightarrow>
        SameSizeCatEmbeddings_forward ?self True keep_all (\<lambda>k c. 1) [[2]] =
          Inr (dropout3 q keep_all
                 (lookup_plus_bias W B (sce_cat_idx ?self) (length [(''a'', 3::nat)]) [[2]]))"
    by blast
  from w(1,2) have T: "lookup_plus_bias W B (sce_cat_idx ?self) (length [(''a'', 3::nat)]) [[2]]
      = [[[3, 3]]]"
    by (auto simp: lookup_plus_bias_def pos_def long_def tabulate2_def tabulate1_def
        const_draws_def upt_conv_Cons)
  from T have T2: "lookup_plus_bias W B [0] (Suc 0) [[2]] = [[[3, 3]]]" by simp
  from w(3) have "dp = NnDropout 0" by simp
  with w(5) have "SameSizeCatEmbeddings_forward ?self True keep_all (\<lambda>k c. 1) [[2]]
      = Inr (dropout3 0 keep_all [[[3, 3]]])" by (simp add: T2)
  then have t: "SameSizeCatEmbeddings_forward ?self True keep_all (\<lambda>k c. 1) [[2]]
      = Inr [[[3, 3]]]"
    by (simp add: dropout3_def dropout2_def dropout1_def dropout_elem_def keep_all_def)
  from w(4) have e: "SameSizeCatEmbeddings_forward ?self False keep_all (\<lambda>k c. 1) [[2]]
      = Inr [[[3, 3]]]" by (simp add: T2)
  from h1 h2 e t show ?thesis by simp
qed


lemma sce_shared_frac_assert:
  assumes "1 \<le> fr" "ei \<noteq> []" "\<forall>col\<in>set (map fst ei). col \<in> dom column_idx"
  shows "snd (SameSizeCatEmbeddings_init embed_dim column_idx (Some ei) p full True add fr
                use_bias b0 t0 w0 s0) = Inl AssertionError"
proof -
  have "\<exists>idx. mapE (getitem column_idx) (map fst ei) = Inr idx \<and> list_all2 (\<lambda>c i. True) (map fst ei) idx"
    using assms(3) by (intro mapE_ex) (auto simp: getitem_def dom_def)
  then obtain idx where idx: "mapE (getitem column_idx) (map fst ei) = Inr idx" by blast
  from assms(2) obtain col val rest where ei: "ei = (col, val) # rest" by (cases ei) auto
  have "SharedEmbeddings_init n embed_dim p full add fr w s = Inl AssertionError" for n w s
    using assms(1) by (simp add: SharedEmbeddings_init_def)
  then have "mapE (\<lambda>(col, val).
                  bindE (SharedEmbeddings_init (if col = ''cls_token'' then val else val + 1)
                           embed_dim p full add fr (w0 col) (s0 col))
                    (\<lambda>layer. Inr (emb_layer col, layer))) ei = Inl AssertionError"
    by (simp add: ei)
  then show ?thesis
    by (simp add: SameSizeCatEmbeddings_init_def idx Let_def)
qed

text \<open>
  Claim C7. With \<^verbatim>\<open>frac_shared_embed >= 1\<close> the constructor of \<^verbatim>\<open>SharedEmbeddings\<close> fails
  with the assertion error, whatever its other arguments are; with
  \<^verbatim>\<open>frac_shared_embed < 1\<close> it does not fail with that error. The fixed-width embedder in
  shared-embedding mode builds its wrappers in its own constructor, so it fails there in
  the same way as soon as it has a categorical column.
\<close>

theorem SharedEmbeddings_frac_assert:
  "(1 \<le> fr \<longrightarrow>
      SharedEmbeddings_init n_embed embed_dim p full add fr w0 s0 = Inl AssertionError)
   \<and> (fr < 1 \<longrightarrow>
      SharedEmbeddings_init n_embed embed_dim p full add fr w0 s0 \<noteq> Inl AssertionError)
   \<and> (1 \<le> fr \<and> ei \<noteq> [] \<and> (\<forall>col\<in>set (map fst ei). col \<in> dom column_idx) \<longrightarrow>
      snd (SameSizeCatEmbeddings_init embed_dim column_idx (Some ei) p full True add fr
             use_bias b0 t0 cw0 cs0) = Inl AssertionError)"
  using sce_shared_frac_assert[of fr ei column_idx embed_dim p full add use_bias b0 t0 cw0 cs0]
  by (auto simp: SharedEmbeddings_init_def Embedding_init_def DropoutLayers_init_def
      Dropout_init_def FullEmbeddingDropout_init_def Let_def)

theorem SharedEmbeddings_frac_assert_witness:
  "(1::real) \<le> 1
   \<and> SharedEmbeddings_init 3 4 0 False False 1 (\<lambda>i j. 1) (\<lambda>j. 5) = Inl AssertionError
   \<and> (1/4::real) < 1
   \<and> SharedEmbeddings_init 3 4 0 False False (1/4) (\<lambda>i j. 1) (\<lambda>j. 5) \<noteq> Inl AssertionError
   \<and> [(''a'', 3::nat)] \<noteq> [] \<and> ''a'' \<in> dom [''a'' \<mapsto> (0::int)]
   \<and> snd (SameSizeCatEmbeddings_init 4 [''a'' \<mapsto> 0] (Some [(''a'', 3)]) 0 False True False 1
             (Some False) (\<lambda>i j. 1) (\<lambda>i j. 1) (\<lambda>c i j. 1) (\<lambda>c j. 5)) = Inl AssertionError"
  using SharedEmbeddings_frac_assert[of 1 3 4 0 False False "\<lambda>i j. 1" "\<lambda>j. 5" "[(''a'', 3)]"
      "[''a'' \<mapsto> 0]" "Some False" "\<lambda>i j. 1" "\<lambda>i j. 1" "\<lambda>c i j. 1" "\<lambda>c j. 5"]
    SharedEmbeddings_frac_assert[of "1/4" 3 4 0 False False "\<lambda>i j. 1" "\<lambda>j. 5" "[(''a'', 3)]"
      "[''a'' \<mapsto> 0]" "Some False" "\<lambda>i j. 1" "\<lambda>i j. 1" "\<lambda>c i j. 1" "\<lambda>c j. 5"]
  by simp

end
